theory Spec2Isabelle
  imports Complex_Main
begin

section \<open>Common data\<close>

text \<open>
  Wall-clock readings (\<^verbatim>\<open>datetime.now()\<close>) are inputs of the model: a reading is the
  number of microseconds since the epoch. The source stores most of them rendered by
  \<^verbatim>\<open>isoformat()\<close>; the rendering is not modelled.
\<close>

type_synonym timestamp = int

text \<open>
  A behaviour-indicator dict, read only through \<^verbatim>\<open>d.get(key)\<close> in a condition: the
  model keeps, for every key present, the truthiness of its value.
\<close>

type_synonym indicators = "string \<rightharpoonup> bool"

definition truthy :: "indicators \<Rightarrow> string \<Rightarrow> bool" where
  "truthy d k = (case d k of None \<Rightarrow> False | Some b \<Rightarrow> b)"

section \<open>Attack chain tracker (RADAR\_DEMO/Stage3\_Mitigate/attack\_chain\_tracker.py)\<close>

record technique_info =
  ti_name :: string
  ti_stage :: int
  ti_next_stages :: "string list"
  ti_description :: string

text \<open>The class constant \<^verbatim>\<open>ATTACK_CHAIN\<close>, in the order of the source.\<close>

definition ATTACK_CHAIN :: "(string \<times> technique_info) list" where
  "ATTACK_CHAIN =
    [(''T1566'', \<lparr>ti_name = ''Phishing'', ti_stage = 1,
        ti_next_stages = [''T1204'', ''T1059''],
        ti_description = ''Initial Access - Malicious attachment/link''\<rparr>),
     (''T1204'', \<lparr>ti_name = ''User Execution'', ti_stage = 2,
        ti_next_stages = [''T1059'', ''T1055''],
        ti_description = ''Execution - User opens malicious file''\<rparr>),
     (''T1059'', \<lparr>ti_name = ''Command and Scripting'', ti_stage = 3,
        ti_next_stages = [''T1055'', ''T1082''],
        ti_description = ''Execution - PowerShell/cmd execution''\<rparr>),
     (''T1055'', \<lparr>ti_name = ''Process Injection'', ti_stage = 4,
        ti_next_stages = [''T1082'', ''T1083''],
        ti_description = ''Defense Evasion - Inject into legitimate process''\<rparr>),
     (''T1082'', \<lparr>ti_name = ''System Information Discovery'', ti_stage = 5,
        ti_next_stages = [''T1083'', ''T1490''],
        ti_description = ''Discovery - Gather system info''\<rparr>),
     (''T1083'', \<lparr>ti_name = ''File and Directory Discovery'', ti_stage = 6,
        ti_next_stages = [''T1490'', ''T1486''],
        ti_description = ''Discovery - Enumerate files for encryption''\<rparr>),
     (''T1490'', \<lparr>ti_name = ''Inhibit System Recovery'', ti_stage = 7,
        ti_next_stages = [''T1486''],
        ti_description = ''Impact - Delete shadow copies/backups''\<rparr>),
     (''T1486'', \<lparr>ti_name = ''Data Encrypted for Impact'', ti_stage = 8,
        ti_next_stages = [''T1657''],
        ti_description = ''Impact - Encrypt user files''\<rparr>),
     (''T1657'', \<lparr>ti_name = ''Ransom Note'', ti_stage = 9,
        ti_next_stages = [],
        ti_description = ''Impact - Display ransom demand''\<rparr>)]"

text \<open>
  \<^verbatim>\<open>ATTACK_CHAIN.get(id, {}).get(field, default)\<close>: the field of a known technique, the
  default for an unknown id.
\<close>

definition chain_name :: "string \<Rightarrow> string" where
  "chain_name tid = (case map_of ATTACK_CHAIN tid of None \<Rightarrow> ''Unknown'' | Some ti \<Rightarrow> ti_name ti)"

definition chain_stage :: "string \<Rightarrow> int" where
  "chain_stage tid = (case map_of ATTACK_CHAIN tid of None \<Rightarrow> 0 | Some ti \<Rightarrow> ti_stage ti)"

definition chain_description :: "string \<Rightarrow> string" where
  "chain_description tid = (case map_of ATTACK_CHAIN tid of None \<Rightarrow> [] | Some ti \<Rightarrow> ti_description ti)"

definition chain_next_stages :: "string \<Rightarrow> string list" where
  "chain_next_stages tid = (case map_of ATTACK_CHAIN tid of None \<Rightarrow> [] | Some ti \<Rightarrow> ti_next_stages ti)"

text \<open>The dict appended to \<^verbatim>\<open>detected_techniques\<close> and \<^verbatim>\<open>attack_timeline\<close>.\<close>

record technique_record =
  rec_id :: string
  rec_name :: string
  rec_stage :: int
  rec_timestamp :: timestamp
  rec_description :: string

text \<open>The instance attributes of \<^verbatim>\<open>AttackChainTracker\<close>.\<close>

record tracker =
  detected_techniques :: "technique_record list"
  current_stage :: int
  attack_timeline :: "technique_record list"

text \<open>\<^verbatim>\<open>AttackChainTracker.__init__\<close>\<close>

definition new_tracker :: tracker where
  "new_tracker = \<lparr>detected_techniques = [], current_stage = 0, attack_timeline = []\<rparr>"

text \<open>
  \<^verbatim>\<open>_record_technique\<close>: nothing happens for an id already in the detected list;
  otherwise the record is appended to both lists and the stage is raised when the record's
  stage is larger. \<open>now\<close> is the clock reading taken for the record.
\<close>

definition record_technique :: "timestamp \<Rightarrow> string \<Rightarrow> tracker \<Rightarrow> tracker" where
  "record_technique now technique_id tr =
    (if technique_id \<notin> set (map rec_id (detected_techniques tr)) then
       (let r = \<lparr>rec_id = technique_id,
                 rec_name = chain_name technique_id,
                 rec_stage = chain_stage technique_id,
                 rec_timestamp = now,
                 rec_description = chain_description technique_id\<rparr>
        in tr\<lparr>detected_techniques := detected_techniques tr @ [r],
               attack_timeline := attack_timeline tr @ [r],
               current_stage :=
                 (if rec_stage r > current_stage tr then rec_stage r else current_stage tr)\<rparr>)
     else tr)"

text \<open>
  The pattern-matching part of \<^verbatim>\<open>map_behavior_to_technique\<close>: six independent
  \<^verbatim>\<open>if behavior_indicators.get(...)\<close> tests, each appending one technique id.
\<close>

definition matched_techniques :: "indicators \<Rightarrow> string list" where
  "matched_techniques behavior_indicators =
     (if truthy behavior_indicators ''shadow_copy_deletion'' then [''T1490''] else []) @
     (if truthy behavior_indicators ''high_entropy'' then [''T1486''] else []) @
     (if truthy behavior_indicators ''file_discovery'' then [''T1083''] else []) @
     (if truthy behavior_indicators ''process_injection'' then [''T1055''] else []) @
     (if truthy behavior_indicators ''script_execution'' then [''T1059''] else []) @
     (if truthy behavior_indicators ''system_info_collection'' then [''T1082''] else [])"

text \<open>
  The \<^verbatim>\<open>for tech_id in matched_techniques\<close> loop; \<open>clock i\<close> is the clock reading of
  its \<open>i\<close>-th iteration.
\<close>

fun record_all :: "(nat \<Rightarrow> timestamp) \<Rightarrow> nat \<Rightarrow> string list \<Rightarrow> tracker \<Rightarrow> tracker" where
  "record_all clock i [] tr = tr"
| "record_all clock i (tech_id # rest) tr =
     record_all clock (Suc i) rest (record_technique (clock i) tech_id tr)"

text \<open>\<^verbatim>\<open>map_behavior_to_technique\<close>: the returned list and the updated tracker.\<close>

definition map_behavior_to_technique ::
  "(nat \<Rightarrow> timestamp) \<Rightarrow> indicators \<Rightarrow> tracker \<Rightarrow> string list \<times> tracker" where
  "map_behavior_to_technique clock behavior_indicators tr =
     (let matched = matched_techniques behavior_indicators
      in (matched, record_all clock 0 matched tr))"

text \<open>
  A session: the calls of \<^verbatim>\<open>map_behavior_to_technique\<close> made on one tracker, in order.
  \<open>run_behaviors\<close> lists the tracker after each call, \<open>run_all\<close> is the last one.
\<close>

fun run_behaviors :: "((nat \<Rightarrow> timestamp) \<times> indicators) list \<Rightarrow> tracker \<Rightarrow> tracker list" where
  "run_behaviors [] tr = []"
| "run_behaviors (c # cs) tr =
     (let tr' = snd (map_behavior_to_technique (fst c) (snd c) tr)
      in tr' # run_behaviors cs tr')"

fun run_all :: "((nat \<Rightarrow> timestamp) \<times> indicators) list \<Rightarrow> tracker \<Rightarrow> tracker" where
  "run_all [] tr = tr"
| "run_all (c # cs) tr = run_all cs (snd (map_behavior_to_technique (fst c) (snd c) tr))"

section \<open>Feature extractor (RADAR\_DEMO/Stage1\_Predict/feature\_extractor.py)\<close>

text \<open>
  Python floats are modelled as reals: division and summation are exact here, where the
  source rounds to float64. The two agree on values that binary floating point represents
  exactly and whose partial sums it represents exactly. They can differ on a tick whose
  exact activity mass equals an idle threshold: the float64 sum may then fall just below
  the threshold (\<open>3.9999999999999996 < 4.0\<close>) and the source takes the idle path. Every
  activity mass evaluated in a statement below is a sum of such exactly represented values
  (\<open>0\<close>, \<open>1/2\<close>, \<open>5/8\<close>, \<open>1\<close>), and no statement quantifies over ticks by their mass. The
  engines themselves use only comparisons and \<open>max\<close> on the scores. The float literals
  \<^verbatim>\<open>5.0\<close>, \<^verbatim>\<open>90.0\<close>, \<^verbatim>\<open>4.0\<close> and \<^verbatim>\<open>0.5\<close> of the engines are written \<open>5\<close>, \<open>90\<close>, \<open>4\<close>
  and \<open>1 / 2\<close>.

  Telemetry dicts are read with \<^verbatim>\<open>.get(key, default)\<close>; a record field of option type is
  \<open>None\<close> when the key is absent.
\<close>

datatype py_error = ValueError | KeyError | TypeError

record file_event =
  fe_type :: "string option"
  fe_timestamp :: "real option"
  fe_entropy :: "real option"
  fe_path :: "string option"

text \<open>
  A numeric entry of a process dict: the key absent, the key present with the value
  \<^verbatim>\<open>None\<close> (what \<^verbatim>\<open>psutil.process_iter\<close> stores for an attribute it may not read), or the
  key present with a number.
\<close>

datatype 'a field = Absent | Null | Value 'a

text \<open>
  A process snapshot. \<open>p_write_bytes\<close> is \<open>Some n\<close> when \<^verbatim>\<open>io_counters\<close> is a truthy
  object with a \<^verbatim>\<open>write_bytes\<close> attribute \<open>n\<close>, and \<open>None\<close> otherwise.
\<close>

record process_info =
  p_cpu_percent :: "real field"
  p_memory_mb :: "real field"
  p_threat_score :: "real field"
  p_write_bytes :: "real option"
  p_start_time :: "real field"

text \<open>
  The honeypot status dict, of which the code reads the keys \<^verbatim>\<open>compromised\<close> and
  \<^verbatim>\<open>total_honeypots\<close>. A dict without these two keys and the empty dict give the same
  features (\<open>[0, 0]\<close>), so the model does not tell them apart.
\<close>

record honeypot_status =
  hs_total_honeypots :: "int option"
  hs_compromised :: "int option"

definition get_or :: "'a option \<Rightarrow> 'a \<Rightarrow> 'a" where
  "get_or v d = (case v of None \<Rightarrow> d | Some x \<Rightarrow> x)"

text \<open>
  \<^verbatim>\<open>p.get(key, default)\<close> on a process dict; the result \<open>None\<close> is the Python value
  \<^verbatim>\<open>None\<close>.
\<close>

definition get_field :: "'a field \<Rightarrow> 'a \<Rightarrow> 'a option" where
  "get_field f d = (case f of Absent \<Rightarrow> Some d | Null \<Rightarrow> None | Value x \<Rightarrow> Some x)"

text \<open>
  The values of a list used in arithmetic or in a comparison: a \<^verbatim>\<open>None\<close> among them raises
  \<^verbatim>\<open>TypeError\<close>.
\<close>

fun numbers_of :: "real option list \<Rightarrow> py_error + real list" where
  "numbers_of [] = Inr []"
| "numbers_of (v # vs) =
     (case v of
        None \<Rightarrow> Inl TypeError
      | Some x \<Rightarrow> (case numbers_of vs of Inl err \<Rightarrow> Inl err | Inr xs \<Rightarrow> Inr (x # xs)))"

text \<open>
  \<^verbatim>\<open>max(values)\<close> on a non-empty list: a single element is returned as it is, also when it
  is \<^verbatim>\<open>None\<close>; with two or more elements a \<^verbatim>\<open>None\<close> among them makes a comparison raise
  \<^verbatim>\<open>TypeError\<close>.
\<close>

definition py_max :: "real option list \<Rightarrow> py_error + real option" where
  "py_max vs =
    (case vs of
       [] \<Rightarrow> Inr (Some 0)
     | [v] \<Rightarrow> Inr v
     | v # w # rest \<Rightarrow>
        (case numbers_of vs of
           Inl err \<Rightarrow> Inl err
         | Inr xs \<Rightarrow> Inr (Some (fold max (tl xs) (hd xs)))))"

definition np_mean :: "real list \<Rightarrow> real" where
  "np_mean xs = sum_list xs / real (length xs)"

text \<open>\<^verbatim>\<open>np.std\<close>: the population standard deviation.\<close>

definition np_std :: "real list \<Rightarrow> real" where
  "np_std xs = sqrt (np_mean (map (\<lambda>x. (x - np_mean xs)\<^sup>2) xs))"

definition count_type :: "string \<Rightarrow> file_event list \<Rightarrow> real" where
  "count_type t es = real (length (filter (\<lambda>e. fe_type e = Some t) es))"

text \<open>\<^verbatim>\<open>path.split('.')[-1]\<close>: what follows the last dot.\<close>

definition last_extension :: "string \<Rightarrow> string" where
  "last_extension path = rev (takeWhile (\<lambda>c. c \<noteq> CHR ''.'') (rev path))"

definition extract_file_features :: "real \<Rightarrow> file_event list \<Rightarrow> real list" where
  "extract_file_features current_time file_events =
    (case file_events of
       [] \<Rightarrow> [0, 0, 0, 0, 0]
     | e0 # _ \<Rightarrow>
        (let modified = count_type ''modified'' file_events;
             created = count_type ''created'' file_events;
             deleted = count_type ''deleted'' file_events;
             time_span = max ((current_time - get_or (fe_timestamp e0) current_time) / 60) 1;
             modified_rate = modified / time_span;
             created_rate = created / time_span;
             deleted_rate = deleted / time_span;
             entropies = List.map_filter fe_entropy file_events;
             avg_entropy = (if entropies \<noteq> [] then np_mean entropies else 0);
             paths = map (\<lambda>e. get_or (fe_path e) []) file_events;
             extensions = remdups (map last_extension (filter (\<lambda>p. CHR ''.'' \<in> set p) paths))
         in [modified_rate, created_rate, deleted_rate, avg_entropy, real (length extensions)]))"

text \<open>
  \<^verbatim>\<open>extract_process_features\<close>. The features are returned as the source's list holds them:
  the first one is \<^verbatim>\<open>None\<close> when the only process has \<^verbatim>\<open>cpu_percent = None\<close>. Any other
  \<^verbatim>\<open>None\<close> raises \<^verbatim>\<open>TypeError\<close> inside the function: in \<^verbatim>\<open>max\<close>, in \<^verbatim>\<open>sum\<close>, in the
  comparison with 30 or in the subtraction from the current time.
\<close>

definition extract_process_features ::
  "real \<Rightarrow> process_info list \<Rightarrow> py_error + real option list" where
  "extract_process_features current_time process_data =
    (if process_data = [] then Inr [Some 0, Some 0, Some 0, Some 0, Some 0]
     else
       (case py_max (map (\<lambda>p. get_field (p_cpu_percent p) 0) process_data) of
          Inl err \<Rightarrow> Inl err
        | Inr max_cpu \<Rightarrow>
       (case numbers_of (map (\<lambda>p. get_field (p_memory_mb p) 0) process_data) of
          Inl err \<Rightarrow> Inl err
        | Inr memory_values \<Rightarrow>
       (case numbers_of (map (\<lambda>p. get_field (p_threat_score p) 0) process_data) of
          Inl err \<Rightarrow> Inl err
        | Inr threat_scores \<Rightarrow>
       (case numbers_of (map (\<lambda>p. get_field (p_start_time p) 0) process_data) of
          Inl err \<Rightarrow> Inl err
        | Inr start_times \<Rightarrow>
           (let total_memory = sum_list memory_values;
                suspicious_count = real (length (filter (\<lambda>ts. ts > 30) threat_scores));
                write_rates =
                  map (\<lambda>b. b / (1024 * 1024)) (List.map_filter p_write_bytes process_data);
                disk_write_rate = (if write_rates \<noteq> [] then sum_list write_rates else 0);
                new_processes =
                  real (length (filter (\<lambda>st. current_time - st < 60) start_times))
            in Inr [max_cpu, Some total_memory, Some suspicious_count, Some disk_write_rate,
                    Some new_processes]))))))"

text \<open>
  \<^verbatim>\<open>extract_honeypot_features\<close>. The argument is \<open>None\<close> for a falsy status (\<^verbatim>\<open>None\<close> or
  the empty dict).
\<close>

definition extract_honeypot_features :: "honeypot_status option \<Rightarrow> real list" where
  "extract_honeypot_features honeypot_status =
    (case honeypot_status of
       None \<Rightarrow> [0, 0]
     | Some hs \<Rightarrow>
        (let compromised = get_or (hs_compromised hs) 0;
             total = get_or (hs_total_honeypots hs) 1;
             access_rate = (if total > 0 then real_of_int compromised / real_of_int total else 0)
         in [real_of_int compromised, access_rate]))"

text \<open>
  The time deltas of \<^verbatim>\<open>extract_temporal_features\<close>: the loop reads
  \<^verbatim>\<open>sorted_events[i]['timestamp']\<close> of every event, a \<^verbatim>\<open>KeyError\<close> when the key is
  absent.
\<close>

fun timestamps_of :: "file_event list \<Rightarrow> py_error + real list" where
  "timestamps_of [] = Inr []"
| "timestamps_of (e # es) =
     (case fe_timestamp e of
        None \<Rightarrow> Inl KeyError
      | Some t \<Rightarrow> (case timestamps_of es of Inl err \<Rightarrow> Inl err | Inr ts \<Rightarrow> Inr (t # ts)))"

fun deltas_of :: "real list \<Rightarrow> real list" where
  "deltas_of (a # b # rest) = (b - a) # deltas_of (b # rest)"
| "deltas_of _ = []"

definition extract_temporal_features :: "file_event list \<Rightarrow> py_error + real list" where
  "extract_temporal_features file_events =
    (if file_events = [] \<or> length file_events < 2 then Inr [0, 0, 1]
     else
       (let sorted_events = sort_key (\<lambda>x. get_or (fe_timestamp x) 0) file_events
        in case timestamps_of sorted_events of
             Inl err \<Rightarrow> Inl err
           | Inr ts \<Rightarrow>
              (let deltas = deltas_of ts;
                   acceleration =
                     (if length deltas \<ge> 2 then (last deltas - hd deltas) / real (length deltas)
                      else 0);
                   burst_score = (if length deltas > 1 then np_std deltas else 0);
                   mean_delta = (if deltas \<noteq> [] then np_mean deltas else 1);
                   consistency = (if mean_delta > 0 then burst_score / mean_delta else 0)
               in Inr [acceleration, burst_score, consistency])))"

text \<open>
  \<^verbatim>\<open>extract_all_features\<close>, in the order of its four calls. \<^verbatim>\<open>file_events or []\<close> and
  \<^verbatim>\<open>process_data or []\<close> are the lists themselves; \<^verbatim>\<open>honeypot_status or {}\<close> is the falsy
  status for \<open>None\<close>. The result is the numeric array of 15 features. When the feature list
  holds a \<^verbatim>\<open>None\<close> (one process, \<^verbatim>\<open>cpu_percent = None\<close>), the source builds an object array
  and the \<^verbatim>\<open>TypeError\<close> is raised by the array division of \<^verbatim>\<open>normalize_features\<close>, which
  every engine calls next on the result; the model raises it here, after the four calls.
\<close>

definition extract_all_features ::
  "real \<Rightarrow> file_event list \<Rightarrow> process_info list \<Rightarrow> honeypot_status option
     \<Rightarrow> py_error + real list" where
  "extract_all_features current_time file_events process_data honeypot_status =
    (case extract_process_features current_time process_data of
       Inl err \<Rightarrow> Inl err
     | Inr process_features \<Rightarrow>
        (case extract_temporal_features file_events of
           Inl err \<Rightarrow> Inl err
         | Inr temporal \<Rightarrow>
            (case numbers_of process_features of
               Inl err \<Rightarrow> Inl err
             | Inr process_numbers \<Rightarrow>
                 Inr (extract_file_features current_time file_events
                      @ process_numbers
                      @ extract_honeypot_features honeypot_status
                      @ temporal))))"

text \<open>The \<^verbatim>\<open>max_values\<close> array of \<^verbatim>\<open>normalize_features\<close>.\<close>

definition max_values :: "real list" where
  "max_values = [100, 50, 50, 8, 20, 100, 2000, 10, 100, 20, 10, 1, 1, 10, 2]"

definition np_clip :: "real \<Rightarrow> real \<Rightarrow> real \<Rightarrow> real" where
  "np_clip x lo hi = min (max x lo) hi"

text \<open>
  \<^verbatim>\<open>normalize_features\<close>: a zero ceiling is replaced by one, then every feature is divided
  by its ceiling and clipped to \<open>[0, 1]\<close>. The argument always has the 15 components of
  \<^verbatim>\<open>extract_all_features\<close> (lemma \<open>extract_all_features_length\<close>), as the array division of
  the source requires.
\<close>

definition normalize_features :: "real list \<Rightarrow> real list" where
  "normalize_features fs =
    (let ceilings = map (\<lambda>m. if m = 0 then 1 else m) max_values;
         normalized = map (\<lambda>(f, m). f / m) (zip fs ceilings)
     in map (\<lambda>x. np_clip x 0 1) normalized)"

text \<open>\<^verbatim>\<open>float(np.sum(np.abs(features)))\<close>, the activity mass of a tick.\<close>

definition feature_sum_of :: "real list \<Rightarrow> real" where
  "feature_sum_of fs = sum_list (map abs fs)"

section \<open>Classifier (RADAR\_DEMO/Stage1\_Predict/ml\_detector.py)\<close>

text \<open>
  The trained Isolation Forest is an oracle: \<open>model_predict\<close> is its categorical output on
  one sample (\<open>1\<close> normal, \<open>-1\<close> anomalous), \<open>model_decision_function\<close> its raw decision
  value.
\<close>

record detector =
  is_trained :: bool
  model_predict :: "real list \<Rightarrow> int"
  model_decision_function :: "real list \<Rightarrow> real"

definition predict :: "detector \<Rightarrow> real list \<Rightarrow> py_error + int" where
  "predict det X = (if \<not> is_trained det then Inl ValueError else Inr (model_predict det X))"

definition predict_proba :: "detector \<Rightarrow> real list \<Rightarrow> py_error + real" where
  "predict_proba det X =
    (if \<not> is_trained det then Inl ValueError
     else (let raw_scores = model_decision_function det X;
               scores = - raw_scores
           in Inr (np_clip ((scores + 0.5) * 100) 0 100)))"

definition predict_with_confidence :: "detector \<Rightarrow> real list \<Rightarrow> py_error + (int \<times> real)" where
  "predict_with_confidence det X =
    (case predict det X of
       Inl err \<Rightarrow> Inl err
     | Inr predictions \<Rightarrow>
        (case predict_proba det X of
           Inl err \<Rightarrow> Inl err
         | Inr threat_scores \<Rightarrow> Inr (predictions, threat_scores)))"

section \<open>Decision engine\<close>

datatype level = LOW | MEDIUM | HIGH | CRITICAL

datatype label = NORMAL | RANSOMWARE

text \<open>
  The keys the two state dicts share; \<open>level\<close> and \<open>label\<close> stand for the strings the source
  stores under \<^verbatim>\<open>threat_level\<close> and \<^verbatim>\<open>prediction\<close>.
\<close>

record verdict =
  threat_score :: real
  threat_level :: level
  prediction :: label
  features :: "real list"
  feature_sum :: real
  is_idle :: bool
  honeypot_status_of :: honeypot_status

text \<open>
  The classifier stage shared by both engines: an idle tick bypasses the classifier with
  prediction \<open>1\<close>, score \<open>5.0\<close> and \<^verbatim>\<open>is_ransomware = False\<close>; any other tick calls
  \<^verbatim>\<open>predict_with_confidence\<close>, whose \<^verbatim>\<open>ValueError\<close> is not caught here. The result is
  (prediction, threat score, is\_ransomware).
\<close>

definition ml_prediction :: "detector \<Rightarrow> bool \<Rightarrow> real list \<Rightarrow> py_error + (int \<times> real \<times> bool)" where
  "ml_prediction det idle fs =
    (if idle then Inr (1, 5, False)
     else (case predict_with_confidence det fs of
             Inl err \<Rightarrow> Inl err
           | Inr (pred, score) \<Rightarrow> Inr (pred, score, pred = - 1)))"

subsection \<open>RADAR\_DEMO/integrated\_system.py\<close>

record system_state = verdict +
  process_count :: nat
  state_timestamp :: timestamp

text \<open>The draws of \<^verbatim>\<open>random\<close> made by \<^verbatim>\<open>_simulate_state\<close>, as inputs.\<close>

record sim_draws =
  sim_threat_score :: real
  sim_features :: "real list"
  sim_feature_sum :: real
  sim_process_count :: nat

definition simulate_state :: "sim_draws \<Rightarrow> timestamp \<Rightarrow> system_state" where
  "simulate_state rnd now =
    \<lparr>threat_score = sim_threat_score rnd,
     threat_level = LOW,
     prediction = NORMAL,
     features = sim_features rnd,
     feature_sum = sim_feature_sum rnd,
     is_idle = False,
     honeypot_status_of = \<lparr>hs_total_honeypots = Some 8, hs_compromised = Some 0\<rparr>,
     process_count = sim_process_count rnd,
     state_timestamp = now\<rparr>"

text \<open>
  The \<^verbatim>\<open>try\<close> block of \<^verbatim>\<open>IntegratedBackend.get_system_state\<close>. The file events passed
  to the extractor are always \<open>[]\<close>, the processes are the first 50, the idle threshold is
  the local constant \<^verbatim>\<open>IDLE_THRESHOLD = 4.0\<close>. The threat level does not read
  \<^verbatim>\<open>is_ransomware\<close>.
\<close>

definition get_system_state_try ::
  "detector \<Rightarrow> real \<Rightarrow> process_info list \<Rightarrow> honeypot_status \<Rightarrow> timestamp
     \<Rightarrow> py_error + system_state" where
  "get_system_state_try det current_time recent_processes honeypot_status now =
    (case extract_all_features current_time [] (take 50 recent_processes) (Some honeypot_status) of
       Inl err \<Rightarrow> Inl err
     | Inr fs \<Rightarrow>
        (let features_normalized = normalize_features fs;
             fsum = feature_sum_of features_normalized;
             IDLE_THRESHOLD = 4;
             idle = (fsum < IDLE_THRESHOLD)
         in case ml_prediction det idle features_normalized of
              Inl err \<Rightarrow> Inl err
            | Inr (pred, score0, is_ransomware0) \<Rightarrow>
               (case hs_compromised honeypot_status of
                  None \<Rightarrow> Inl KeyError
                | Some compromised \<Rightarrow>
                   (let score = (if compromised > 0 then max score0 90 else score0);
                        is_ransomware = (if compromised > 0 then True else is_ransomware0);
                        lvl = (if compromised > 0 \<or> score > 70 then CRITICAL
                               else if score > 50 then HIGH
                               else if score > 30 then MEDIUM
                               else LOW)
                    in Inr \<lparr>threat_score = score,
                            threat_level = lvl,
                            prediction = (if is_ransomware then RANSOMWARE else NORMAL),
                            features = features_normalized,
                            feature_sum = fsum,
                            is_idle = idle,
                            honeypot_status_of = honeypot_status,
                            process_count = length recent_processes,
                            state_timestamp = now\<rparr>))))"

text \<open>
  \<^verbatim>\<open>get_system_state\<close>: in demo mode the state is simulated; otherwise the \<^verbatim>\<open>try\<close> block
  runs and \<^verbatim>\<open>except Exception\<close> prints the error and returns the simulated state.
\<close>

definition get_system_state ::
  "bool \<Rightarrow> detector \<Rightarrow> real \<Rightarrow> process_info list \<Rightarrow> honeypot_status \<Rightarrow> sim_draws \<Rightarrow> timestamp
     \<Rightarrow> system_state" where
  "get_system_state demo_mode det current_time recent_processes honeypot_status rnd now =
    (if demo_mode then simulate_state rnd now
     else (case get_system_state_try det current_time recent_processes honeypot_status now of
             Inl err \<Rightarrow> simulate_state rnd now
           | Inr st \<Rightarrow> st))"

subsection \<open>RADAR\_FINAL/Stage1\_Predict/stage1\_integrated\_backup.py\<close>

record analysis = verdict +
  recent_file_events :: nat
  suspicious_processes :: nat

text \<open>
  \<^verbatim>\<open>Stage1IntegratedSystem.analyze_current_state\<close>. File events of the last 60 seconds
  are kept (timestamps are the floats the file monitor stores), the idle threshold is the
  literal \<open>0.5\<close>, and no exception is caught. The method also stores the level it returns
  in \<^verbatim>\<open>self.threat_level\<close>. (Where \<^verbatim>\<open>suspicious_processes\<close> is counted, no
  \<^verbatim>\<open>threat_score\<close> is \<^verbatim>\<open>None\<close>: the extractor has raised \<^verbatim>\<open>TypeError\<close> otherwise.)
\<close>

definition analyze_current_state ::
  "detector \<Rightarrow> real \<Rightarrow> file_event list \<Rightarrow> process_info list \<Rightarrow> honeypot_status
     \<Rightarrow> py_error + analysis" where
  "analyze_current_state det current_time file_events recent_processes honeypot_status =
    (let recent_files = filter (\<lambda>e. current_time - get_or (fe_timestamp e) 0 < 60) file_events
     in case extract_all_features current_time recent_files recent_processes (Some honeypot_status) of
          Inl err \<Rightarrow> Inl err
        | Inr raw \<Rightarrow>
           (let fs = normalize_features raw;
                fsum = feature_sum_of fs;
                idle = (fsum < 1 / 2)
            in case ml_prediction det idle fs of
                 Inl err \<Rightarrow> Inl err
               | Inr (prediction_value, threat_score_value0, is_ransomware0) \<Rightarrow>
                  (case hs_compromised honeypot_status of
                     None \<Rightarrow> Inl KeyError
                   | Some compromised \<Rightarrow>
                      (let lvl = (if compromised > 0 then CRITICAL
                                  else if is_ransomware0 \<or> threat_score_value0 > 70 then CRITICAL
                                  else if threat_score_value0 > 50 then HIGH
                                  else if threat_score_value0 > 30 then MEDIUM
                                  else LOW);
                           threat_score_value =
                             (if compromised > 0 then max threat_score_value0 90
                              else threat_score_value0);
                           is_ransomware = (if compromised > 0 then True else is_ransomware0)
                       in Inr \<lparr>threat_score = threat_score_value,
                               threat_level = lvl,
                               prediction = (if is_ransomware then RANSOMWARE else NORMAL),
                               features = fs,
                               feature_sum = fsum,
                               is_idle = idle,
                               honeypot_status_of = honeypot_status,
                               recent_file_events = length recent_files,
                               suspicious_processes =
                                 length (filter (\<lambda>p. 30 < get_or (get_field (p_threat_score p) 0) 0)
                                           recent_processes)\<rparr>))))"

section \<open>Attack chain prediction and report (attack\_chain\_tracker.py, continued)\<close>

record predicted_technique =
  pt_id :: string
  pt_name :: string
  pt_stage :: int
  pt_description :: string

text \<open>
  The dict returned by \<^verbatim>\<open>predict_next_stage\<close>. When nothing has been detected the dict
  has only the keys \<^verbatim>\<open>predicted_techniques\<close>, \<^verbatim>\<open>confidence\<close> and
  \<^verbatim>\<open>recommended_actions\<close>: the other three fields are \<open>None\<close> then.
\<close>

record stage_prediction =
  pr_current_stage :: "int option"
  pr_current_technique :: "technique_record option"
  pr_predicted_techniques :: "predicted_technique list"
  pr_confidence :: real
  pr_recommended_actions :: "string list"
  pr_urgency :: "level option"

definition calculate_urgency :: "tracker \<Rightarrow> level" where
  "calculate_urgency tr =
    (if current_stage tr \<ge> 7 then CRITICAL
     else if current_stage tr \<ge> 5 then HIGH
     else if current_stage tr \<ge> 3 then MEDIUM
     else LOW)"

definition actions_for :: "string \<Rightarrow> string list" where
  "actions_for tech_id =
    (if tech_id = ''T1490'' then
       [''URGENT: Block access to shadow copies'', ''Protect backup systems immediately'']
     else if tech_id = ''T1486'' then
       [''CRITICAL: Lock all sensitive folders NOW'', ''Isolate system from network'',
        ''Kill suspicious processes immediately'']
     else if tech_id = ''T1083'' then
       [''Monitor file system access patterns'', ''Enable honeypot file alerts'']
     else if tech_id = ''T1055'' then
       [''Monitor process creation/injection'', ''Enable process integrity checks'']
     else [])"

text \<open>
  \<^verbatim>\<open>_get_recommended_actions\<close>. The source returns \<^verbatim>\<open>list(set(actions))\<close>, whose order
  Python leaves open; the model keeps one occurrence of each action.
\<close>

definition get_recommended_actions :: "predicted_technique list \<Rightarrow> string list" where
  "get_recommended_actions predicted =
    (let actions = concat (map (\<lambda>tech. actions_for (pt_id tech)) predicted)
     in if actions \<noteq> [] then remdups actions else [''Continue enhanced monitoring''])"

definition predict_next_stage :: "tracker \<Rightarrow> stage_prediction" where
  "predict_next_stage tr =
    (if detected_techniques tr = [] then
       \<lparr>pr_current_stage = None, pr_current_technique = None, pr_predicted_techniques = [],
        pr_confidence = 0.0, pr_recommended_actions = [''Continue monitoring''],
        pr_urgency = None\<rparr>
     else
       (let latest_technique = last (detected_techniques tr);
            tech_id = rec_id latest_technique;
            predicted = map (\<lambda>next_id. \<lparr>pt_id = next_id, pt_name = chain_name next_id,
                                          pt_stage = chain_stage next_id,
                                          pt_description = chain_description next_id\<rparr>)
                          (chain_next_stages tech_id);
            confidence = min 0.95 (0.5 + (real_of_int (current_stage tr) * 0.08))
        in \<lparr>pr_current_stage = Some (current_stage tr),
            pr_current_technique = Some latest_technique,
            pr_predicted_techniques = predicted,
            pr_confidence = confidence,
            pr_recommended_actions = get_recommended_actions predicted,
            pr_urgency = Some (calculate_urgency tr)\<rparr>))"

record attack_report =
  ar_timestamp :: timestamp
  ar_total_techniques_detected :: nat
  ar_current_stage :: int
  ar_attack_progression :: real
  ar_urgency :: level
  ar_detected_techniques :: "technique_record list"
  ar_attack_timeline :: "technique_record list"
  ar_predictions :: stage_prediction

definition generate_attack_report :: "timestamp \<Rightarrow> tracker \<Rightarrow> attack_report" where
  "generate_attack_report now tr =
    \<lparr>ar_timestamp = now,
     ar_total_techniques_detected = length (detected_techniques tr),
     ar_current_stage = current_stage tr,
     ar_attack_progression = real_of_int (current_stage tr) / 9 * 100,
     ar_urgency = calculate_urgency tr,
     ar_detected_techniques = detected_techniques tr,
     ar_attack_timeline = attack_timeline tr,
     ar_predictions = predict_next_stage tr\<rparr>"

section \<open>Mitigation engine (RADAR\_FINAL/Stage3\_Mitigate/mitigation\_actions.py)\<close>

text \<open>
  The loaded configuration. \<open>auto_isolate\<close> and \<open>auto_restore\<close> are the truthiness of
  \<^verbatim>\<open>config.get(...)\<close>; the two other keys are \<open>None\<close> when the config file lacks them.
\<close>

record mitigation_config =
  critical_folders :: "string list option"
  backup_location :: "string option"
  auto_isolate :: bool
  auto_restore :: bool

text \<open>An exception raised inside a step: \<^verbatim>\<open>psutil.NoSuchProcess\<close>, or any other with its text.\<close>

datatype step_exn = NoSuchProcess | OtherException string

datatype backup_listing = NoBackupDir | BackupFiles nat | BackupFailure string

text \<open>
  What the operating system answers to the engine. \<open>pid_exists\<close> is the process table,
  asked for a pid that fits the platform's pid type; \<open>overflow_message\<close> is the text of the
  \<^verbatim>\<open>OverflowError\<close> raised for a pid that does not fit. \<open>kill_process pid\<close> is the outcome
  of \<^verbatim>\<open>psutil.Process(pid)\<close>, \<^verbatim>\<open>name()\<close>, \<^verbatim>\<open>kill()\<close> and \<^verbatim>\<open>wait(timeout=3)\<close>: the process
  name, or the exception raised. \<open>lock_folder\<close> and \<open>disable_interfaces\<close> give the text of
  the exception raised, if any.
\<close>

record os_env =
  pid_exists :: "int \<Rightarrow> bool"
  overflow_message :: string
  kill_process :: "int \<Rightarrow> step_exn + string"
  user_home :: string
  folder_exists :: "string \<Rightarrow> bool"
  lock_folder :: "string \<Rightarrow> string option"
  disable_interfaces :: "string option"
  list_backup :: "string \<Rightarrow> backup_listing"

text \<open>The formatted \<^verbatim>\<open>details\<close> strings of the steps, by their kind and parameters.\<close>

datatype details =
    KilledProcess string int
  | ProcessNotFound
  | ProcessAlreadyTerminated
  | LockedFolders nat bool
  | IsolationSimulated
  | InterfacesDisabled
  | NoBackupDirectory
  | BackupReady nat

text \<open>
  A step result. \<open>locked_folders\<close> is meaningful for \<^verbatim>\<open>LOCK_FOLDERS\<close> and \<open>restored_files\<close>
  for \<^verbatim>\<open>BACKUP_RESTORE\<close> only.
\<close>

record action =
  action_name :: string
  action_timestamp :: timestamp
  success :: bool
  action_details :: "details option"
  action_error :: "string option"
  locked_folders :: "string list"
  restored_files :: nat

definition new_action :: "string \<Rightarrow> timestamp \<Rightarrow> action" where
  "new_action name now =
    \<lparr>action_name = name, action_timestamp = now, success = False, action_details = None,
     action_error = None, locked_folders = [], restored_files = 0\<rparr>"

text \<open>
  \<^verbatim>\<open>psutil.pid_exists(pid)\<close> as the step calls it, on a POSIX host whose pid type is a
  32-bit C int: a negative pid is answered \<^verbatim>\<open>False\<close> at once; a pid of \<open>2^31\<close> or more does
  not convert to the pid type and \<^verbatim>\<open>os.kill(pid, 0)\<close> raises \<^verbatim>\<open>OverflowError\<close>; any other
  pid is looked up in the process table.
\<close>

definition psutil_pid_exists :: "os_env \<Rightarrow> int \<Rightarrow> step_exn + bool" where
  "psutil_pid_exists env p =
    (if p < 0 then Inr False
     else if 2 ^ 31 \<le> p then Inl (OtherException (overflow_message env))
     else Inr (pid_exists env p))"

text \<open>
  The \<^verbatim>\<open>try\<close> block of \<^verbatim>\<open>kill_malicious_process\<close>. \<^verbatim>\<open>if pid and psutil.pid_exists(pid)\<close>
  does not call \<^verbatim>\<open>pid_exists\<close> for \<^verbatim>\<open>None\<close> and for \<open>0\<close>, which are falsy.
\<close>

definition kill_try :: "os_env \<Rightarrow> action \<Rightarrow> int option \<Rightarrow> step_exn + action" where
  "kill_try env act pid =
    (case pid of
       None \<Rightarrow> Inr (act\<lparr>action_details := Some ProcessNotFound, success := True\<rparr>)
     | Some p \<Rightarrow>
        (if p = 0 then Inr (act\<lparr>action_details := Some ProcessNotFound, success := True\<rparr>)
         else
           (case psutil_pid_exists env p of
              Inl exn \<Rightarrow> Inl exn
            | Inr False \<Rightarrow>
                Inr (act\<lparr>action_details := Some ProcessNotFound, success := True\<rparr>)
            | Inr True \<Rightarrow>
               (case kill_process env p of
                  Inl exn \<Rightarrow> Inl exn
                | Inr process_name \<Rightarrow>
                    Inr (act\<lparr>success := True,
                             action_details := Some (KilledProcess process_name p)\<rparr>)))))"

text \<open>\<^verbatim>\<open>kill_malicious_process\<close>, with its two handlers.\<close>

definition kill_malicious_process :: "os_env \<Rightarrow> timestamp \<Rightarrow> int option \<Rightarrow> action" where
  "kill_malicious_process env now pid =
    (let act = new_action ''KILL_PROCESS'' now
     in case kill_try env act pid of
          Inr done \<Rightarrow> done
        | Inl NoSuchProcess \<Rightarrow>
            act\<lparr>success := True, action_details := Some ProcessAlreadyTerminated\<rparr>
        | Inl (OtherException e) \<Rightarrow> act\<lparr>action_error := Some e\<rparr>)"

text \<open>\<^verbatim>\<open>str(e)\<close> of the \<^verbatim>\<open>KeyError\<close> for a missing config key: the key between quotes.\<close>

definition key_error_text :: "string \<Rightarrow> string" where
  "key_error_text k = CHR 0x27 # k @ [CHR 0x27]"

text \<open>
  The locking loop of \<^verbatim>\<open>lock_critical_folders\<close>: folders that do not exist are skipped;
  an exception stops the loop, and the folders locked before it stay in the action.
\<close>

fun lock_loop :: "os_env \<Rightarrow> string list \<Rightarrow> string list \<Rightarrow> string list \<times> string option" where
  "lock_loop env [] locked = (locked, None)"
| "lock_loop env (folder_path # rest) locked =
     (if folder_exists env folder_path then
        (case lock_folder env folder_path of
           Some e \<Rightarrow> (locked, Some e)
         | None \<Rightarrow> lock_loop env rest (locked @ [folder_path]))
      else lock_loop env rest locked)"

definition lock_critical_folders ::
  "bool \<Rightarrow> mitigation_config \<Rightarrow> string \<Rightarrow> os_env \<Rightarrow> timestamp \<Rightarrow> action" where
  "lock_critical_folders demo_mode cfg safe_folder env now =
    (let act = new_action ''LOCK_FOLDERS'' now
     in if demo_mode then
          (case lock_loop env [safe_folder] [] of
             (locked, Some e) \<Rightarrow> act\<lparr>locked_folders := locked, action_error := Some e\<rparr>
           | (locked, None) \<Rightarrow>
               act\<lparr>locked_folders := locked, success := True,
                    action_details := Some (LockedFolders (length locked) demo_mode)\<rparr>)
        else
          (case critical_folders cfg of
             None \<Rightarrow> act\<lparr>action_error := Some (key_error_text ''critical_folders'')\<rparr>
           | Some names \<Rightarrow>
              (case lock_loop env (map (\<lambda>folder_name. user_home env @ ''/'' @ folder_name) names) [] of
                 (locked, Some e) \<Rightarrow> act\<lparr>locked_folders := locked, action_error := Some e\<rparr>
               | (locked, None) \<Rightarrow>
                   act\<lparr>locked_folders := locked, success := True,
                        action_details := Some (LockedFolders (length locked) demo_mode)\<rparr>)))"

definition isolate_network :: "bool \<Rightarrow> os_env \<Rightarrow> timestamp \<Rightarrow> action" where
  "isolate_network demo_mode env now =
    (let act = new_action ''NETWORK_ISOLATION'' now
     in if demo_mode then act\<lparr>success := True, action_details := Some IsolationSimulated\<rparr>
        else (case disable_interfaces env of
                Some e \<Rightarrow> act\<lparr>action_error := Some e\<rparr>
              | None \<Rightarrow> act\<lparr>success := True, action_details := Some InterfacesDisabled\<rparr>))"

definition restore_from_backup :: "mitigation_config \<Rightarrow> os_env \<Rightarrow> timestamp \<Rightarrow> action" where
  "restore_from_backup cfg env now =
    (let act = new_action ''BACKUP_RESTORE'' now
     in case backup_location cfg of
          None \<Rightarrow> act\<lparr>action_error := Some (key_error_text ''backup_location'')\<rparr>
        | Some dir \<Rightarrow>
           (case list_backup env dir of
              NoBackupDir \<Rightarrow> act\<lparr>action_details := Some NoBackupDirectory\<rparr>
            | BackupFiles n \<Rightarrow>
                act\<lparr>restored_files := n, success := True, action_details := Some (BackupReady n)\<rparr>
            | BackupFailure e \<Rightarrow> act\<lparr>action_error := Some e\<rparr>))"

datatype mitigation_status = IN_PROGRESS | SUCCESS | FAILED

record mitigation_result =
  mr_timestamp :: timestamp
  mr_threat_id :: string
  actions_taken :: "action list"
  mr_status :: mitigation_status
  response_time_seconds :: "real option"
  mr_error :: "string option"

record threat_data =
  td_threat_id :: "string option"
  td_pid :: "int option"

text \<open>The clock readings of one \<^verbatim>\<open>execute_mitigation\<close> call, in the order they are taken.\<close>

record mitigation_clock =
  mc_start :: timestamp
  mc_kill :: timestamp
  mc_lock :: timestamp
  mc_isolate :: timestamp
  mc_restore :: timestamp
  mc_end :: timestamp

text \<open>\<^verbatim>\<open>timedelta.total_seconds()\<close> of the difference of two readings.\<close>

definition total_seconds :: "timestamp \<Rightarrow> timestamp \<Rightarrow> real" where
  "total_seconds end_time start_time = real_of_int (end_time - start_time) / 1000000"

record engine =
  eng_demo_mode :: bool
  eng_config :: mitigation_config
  eng_safe_folder :: string
  start_time :: "timestamp option"
  response_log :: "mitigation_result list"

text \<open>
  \<^verbatim>\<open>execute_mitigation\<close>. Every step catches its own exceptions and returns its action, so
  within the model the \<^verbatim>\<open>except\<close> branch of the orchestrator (status \<^verbatim>\<open>FAILED\<close>) is not
  taken. \<^verbatim>\<open>_log_response\<close> appends the result to \<^verbatim>\<open>response_log\<close>; its file output is
  not modelled.
\<close>

definition execute_mitigation ::
  "engine \<Rightarrow> os_env \<Rightarrow> mitigation_clock \<Rightarrow> threat_data \<Rightarrow> mitigation_result \<times> engine" where
  "execute_mitigation eng env clk td =
    (let kill_result = kill_malicious_process env (mc_kill clk) (td_pid td);
         lock_result = lock_critical_folders (eng_demo_mode eng) (eng_config eng)
                         (eng_safe_folder eng) env (mc_lock clk);
         isolate_results =
           (if auto_isolate (eng_config eng)
            then [isolate_network (eng_demo_mode eng) env (mc_isolate clk)] else []);
         restore_results =
           (if auto_restore (eng_config eng)
            then [restore_from_backup (eng_config eng) env (mc_restore clk)] else []);
         results =
           \<lparr>mr_timestamp = mc_start clk,
            mr_threat_id = get_or (td_threat_id td) ''UNKNOWN'',
            actions_taken = [kill_result, lock_result] @ isolate_results @ restore_results,
            mr_status = SUCCESS,
            response_time_seconds = Some (total_seconds (mc_end clk) (mc_start clk)),
            mr_error = None\<rparr>
     in (results, eng\<lparr>start_time := Some (mc_start clk),
                         response_log := response_log eng @ [results]\<rparr>))"

section \<open>Protection pipeline (RADAR\_FINAL/Stage3\_Mitigate/stage3\_mitigation.py)\<close>

record detection_data =
  dd_threat_level :: "string option"
  dd_pid :: "int option"
  dd_process_name :: "string option"
  dd_indicators :: "indicators option"

record attack_analysis =
  aa_detected_techniques :: "string list"
  aa_current_stage :: int
  aa_urgency :: level
  aa_predictions :: stage_prediction

text \<open>
  The response package, without the report texts of the forensics assistant and the echo
  of the detection data.
\<close>

record response_package =
  incident_id :: string
  total_response_time :: real
  attack_analysis_of :: attack_analysis
  mitigation_result_of :: mitigation_result
  target_met :: bool

text \<open>
  The clock readings of one \<^verbatim>\<open>respond_to_threat\<close> call; \<open>pc_incident\<close> is the
  identifier \<^verbatim>\<open>INC_...\<close> formatted from the second reading.
\<close>

record pipeline_clock =
  pc_start :: timestamp
  pc_incident :: string
  pc_tracker :: "nat \<Rightarrow> timestamp"
  pc_mitigation :: mitigation_clock
  pc_end :: timestamp

record pipeline =
  mitigation_engine :: engine
  attack_tracker :: tracker
  incident_count :: nat

text \<open>
  \<^verbatim>\<open>Stage3ProtectionPipeline.respond_to_threat\<close>. Notifications, the audio alert and the
  forensics reports are outside the model. After the behaviour mapping the method reads
  \<^verbatim>\<open>prediction['current_stage']\<close> and \<^verbatim>\<open>prediction['urgency']\<close>: a \<^verbatim>\<open>KeyError\<close>, raised before
  any mitigation, when the tracker has detected nothing so far.
\<close>

definition respond_to_threat ::
  "pipeline \<Rightarrow> os_env \<Rightarrow> pipeline_clock \<Rightarrow> detection_data
     \<Rightarrow> pipeline \<times> (py_error + response_package)" where
  "respond_to_threat pl env clk dd =
    (let behavior_indicators = get_or (dd_indicators dd) Map.empty;
         (detected, tr') = map_behavior_to_technique (pc_tracker clk) behavior_indicators
                             (attack_tracker pl);
         pl1 = pl\<lparr>incident_count := incident_count pl + 1, attack_tracker := tr'\<rparr>;
         prediction = predict_next_stage tr'
     in case (pr_current_stage prediction, pr_urgency prediction) of
          (Some stage, Some urg) \<Rightarrow>
            (let td = \<lparr>td_threat_id = Some (pc_incident clk), td_pid = dd_pid dd\<rparr>;
                 (mitigation_result, eng') =
                    execute_mitigation (mitigation_engine pl1) env (pc_mitigation clk) td;
                 total = total_seconds (pc_end clk) (pc_start clk)
             in (pl1\<lparr>mitigation_engine := eng'\<rparr>,
                 Inr \<lparr>incident_id = pc_incident clk,
                      total_response_time = total,
                      attack_analysis_of =
                        \<lparr>aa_detected_techniques = detected, aa_current_stage = stage,
                         aa_urgency = urg, aa_predictions = prediction\<rparr>,
                      mitigation_result_of = mitigation_result,
                      target_met = (total < 10)\<rparr>))
        | _ \<Rightarrow> (pl1, Inl KeyError))"

section \<open>Stated properties and sample inputs\<close>

definition detected_ids :: "tracker \<Rightarrow> string list" where
  "detected_ids tr = map rec_id (detected_techniques tr)"

text \<open>
  The six indicator keys the code tests, each with the technique id it appends, in the
  order of the tests.
\<close>

definition indicator_table :: "(string \<times> string) list" where
  "indicator_table =
    [(''shadow_copy_deletion'', ''T1490''),
     (''high_entropy'', ''T1486''),
     (''file_discovery'', ''T1083''),
     (''process_injection'', ''T1055''),
     (''script_execution'', ''T1059''),
     (''system_info_collection'', ''T1082'')]"

text \<open>
  The six indicator flags as the specification lists them: decoy access, high entropy, mass
  file discovery, process injection, script execution, system-info collection. The
  decoy-access flag is written with the key under which the repository's detection data
  reports it (\<^verbatim>\<open>honeypot_hit\<close>).
\<close>

definition spec_indicator_flags :: "string list" where
  "spec_indicator_flags =
    [''honeypot_hit'', ''high_entropy'', ''file_discovery'', ''process_injection'',
     ''script_execution'', ''system_info_collection'']"

text \<open>
  The threat level as the specification states it, a function of the decoy count, the label
  and the score.
\<close>

definition spec_threat_level :: "int \<Rightarrow> label \<Rightarrow> real \<Rightarrow> level" where
  "spec_threat_level decoy lbl score =
    (if decoy > 0 \<or> lbl = RANSOMWARE \<or> score > 70 then CRITICAL
     else if score > 50 then HIGH
     else if score > 30 then MEDIUM
     else LOW)"

text \<open>The normalised vector of a tick without any activity, and three decoy statuses.\<close>

definition empty_tick_vector :: "real list" where
  "empty_tick_vector = [0, 0, 0, 0, 0, 0, 0, 0, 0, 0, 0, 0, 0, 0, 1 / 2]"

definition decoys_8_0 :: honeypot_status where
  "decoys_8_0 = \<lparr>hs_total_honeypots = Some 8, hs_compromised = Some 0\<rparr>"

definition decoys_8_8 :: honeypot_status where
  "decoys_8_8 = \<lparr>hs_total_honeypots = Some 8, hs_compromised = Some 8\<rparr>"

definition decoys_8_5 :: honeypot_status where
  "decoys_8_5 = \<lparr>hs_total_honeypots = Some 8, hs_compromised = Some 5\<rparr>"

text \<open>Concrete inputs used to evaluate the engines.\<close>

definition untrained_detector :: detector where
  "untrained_detector =
    \<lparr>is_trained = False, model_predict = (\<lambda>X. 1), model_decision_function = (\<lambda>X. 0)\<rparr>"

text \<open>A trained classifier that calls every sample anomalous, with decision value \<open>-0.125\<close>.\<close>

definition anomalous_detector :: detector where
  "anomalous_detector =
    \<lparr>is_trained = True, model_predict = (\<lambda>X. - 1), model_decision_function = (\<lambda>X. - 1 / 8)\<rparr>"

text \<open>A trained classifier that calls every sample normal, with decision value \<open>0.375\<close>.\<close>

definition calm_detector :: detector where
  "calm_detector =
    \<lparr>is_trained = True, model_predict = (\<lambda>X. 1), model_decision_function = (\<lambda>X. 3 / 8)\<rparr>"

text \<open>
  Process dicts with the keys the process monitor stores (\<^verbatim>\<open>cpu_percent\<close>, \<^verbatim>\<open>memory_mb\<close>,
  \<^verbatim>\<open>io_counters\<close>): one at 100 per cent CPU holding 2000 MB with 100 MiB written, and one
  whose \<^verbatim>\<open>cpu_percent\<close> the monitor could not read.
\<close>

definition heavy_process :: process_info where
  "heavy_process =
    \<lparr>p_cpu_percent = Value 100, p_memory_mb = Value 2000, p_threat_score = Absent,
     p_write_bytes = Some 104857600, p_start_time = Absent\<rparr>"

definition unreadable_process :: process_info where
  "unreadable_process =
    \<lparr>p_cpu_percent = Null, p_memory_mb = Value 10, p_threat_score = Absent,
     p_write_bytes = None, p_start_time = Absent\<rparr>"

definition sample_draws :: sim_draws where
  "sample_draws =
    \<lparr>sim_threat_score = 35 / 2, sim_features = [], sim_feature_sum = 2, sim_process_count = 100\<rparr>"

text \<open>
  A host on which no pid names a process, every folder exists and can be locked, and there
  is no backup directory; an engine in demo mode with both optional steps switched off.
\<close>

definition quiet_env :: os_env where
  "quiet_env =
    \<lparr>pid_exists = (\<lambda>p. False),
     overflow_message = ''Python int too large to convert to C int'',
     kill_process = (\<lambda>p. Inl NoSuchProcess),
     user_home = ''/home/user'',
     folder_exists = (\<lambda>f. True),
     lock_folder = (\<lambda>f. None),
     disable_interfaces = None,
     list_backup = (\<lambda>d. NoBackupDir)\<rparr>"

definition two_step_engine :: engine where
  "two_step_engine =
    \<lparr>eng_demo_mode = True,
     eng_config = \<lparr>critical_folders = Some [''Documents'', ''Desktop''],
                   backup_location = Some ''backups/'',
                   auto_isolate = False, auto_restore = False\<rparr>,
     eng_safe_folder = ''Safe_Demo_Folder'',
     start_time = None,
     response_log = []\<rparr>"

definition sample_pipeline :: pipeline where
  "sample_pipeline =
    \<lparr>mitigation_engine = two_step_engine, attack_tracker = new_tracker, incident_count = 0\<rparr>"

definition sample_detection :: detection_data where
  "sample_detection =
    \<lparr>dd_threat_level = Some ''HIGH'', dd_pid = Some 1234,
     dd_process_name = Some ''ransomware.exe'',
     dd_indicators = Some [''high_entropy'' \<mapsto> True]\<rparr>"

text \<open>A detection whose only indicator is the decoy hit.\<close>

definition decoy_only_detection :: detection_data where
  "decoy_only_detection =
    \<lparr>dd_threat_level = Some ''CRITICAL'', dd_pid = Some 1234,
     dd_process_name = Some ''ransomware.exe'',
     dd_indicators = Some [''honeypot_hit'' \<mapsto> True]\<rparr>"

text \<open>Clock readings of a response that takes \<open>us\<close> microseconds from start to end.\<close>

definition sample_clock :: "int \<Rightarrow> pipeline_clock" where
  "sample_clock us =
    \<lparr>pc_start = 0, pc_incident = ''INC_20250101_000000'', pc_tracker = (\<lambda>i. 1),
     pc_mitigation = \<lparr>mc_start = 2, mc_kill = 3, mc_lock = 4, mc_isolate = 5, mc_restore = 6,
                      mc_end = 7\<rparr>,
     pc_end = us\<rparr>"

section \<open>Properties of the attack chain tracker\<close>

lemma record_technique_stage_mono:
  "current_stage tr \<le> current_stage (record_technique now tid tr)"
  by (simp add: record_technique_def Let_def)

lemma record_all_stage_mono:
  "current_stage tr \<le> current_stage (record_all clock i tids tr)"
proof (induction tids arbitrary: i tr)
  case Nil
  show ?case by simp
next
  case (Cons t ts)
  have "current_stage tr \<le> current_stage (record_technique (clock i) t tr)"
    by (rule record_technique_stage_mono)
  also have "\<dots> \<le> current_stage (record_all clock (Suc i) ts (record_technique (clock i) t tr))"
    by (rule Cons.IH)
  finally show ?case by simp
qed

lemma map_behavior_stage_mono:
  "current_stage tr \<le> current_stage (snd (map_behavior_to_technique clock bi tr))"
  by (simp add: map_behavior_to_technique_def Let_def record_all_stage_mono)

text \<open>
  C4. On one tracker, every call of \<^verbatim>\<open>map_behavior_to_technique\<close> (the spec's
  recordBehavior), whatever its indicator dict, leaves \<open>current_stage\<close> greater than or
  equal to its value before the call; hence over any sequence of calls the stages reached,
  starting from the stage before the first call, form a non-decreasing sequence.
\<close>

theorem current_stage_monotone:
  "current_stage tr \<le> current_stage (snd (map_behavior_to_technique clock bi tr))
   \<and> sorted (map current_stage (tr # run_behaviors calls tr))"
proof
  show "current_stage tr \<le> current_stage (snd (map_behavior_to_technique clock bi tr))"
    by (rule map_behavior_stage_mono)
next
  show "sorted (map current_stage (tr # run_behaviors calls tr))"
  proof (induction calls arbitrary: tr)
    case Nil
    show ?case by simp
  next
    case (Cons c cs)
    let ?tr' = "snd (map_behavior_to_technique (fst c) (snd c) tr)"
    have step: "current_stage tr \<le> current_stage ?tr'"
      by (rule map_behavior_stage_mono)
    have rest: "sorted (map current_stage (?tr' # run_behaviors cs ?tr'))"
      by (rule Cons.IH)
    have "\<forall>s \<in> set (map current_stage (?tr' # run_behaviors cs ?tr')). current_stage tr \<le> s"
      using step rest by (auto simp: order_trans)
    with rest show ?case by (simp add: Let_def)
  qed
qed

lemma ids_record_technique:
  "set (detected_ids (record_technique now t tr)) = insert t (set (detected_ids tr))"
  by (auto simp: record_technique_def detected_ids_def Let_def)

lemma ids_record_all:
  "set (detected_ids (record_all clock i ts tr)) = set ts \<union> set (detected_ids tr)"
  by (induction ts arbitrary: i tr) (auto simp: ids_record_technique)

lemma record_technique_known:
  "t \<in> set (detected_ids tr) \<Longrightarrow> record_technique now t tr = tr"
  by (simp add: record_technique_def detected_ids_def)

lemma record_all_known:
  "set ts \<subseteq> set (detected_ids tr) \<Longrightarrow> record_all clock i ts tr = tr"
  by (induction ts arbitrary: i) (auto simp: record_technique_known)

lemma record_technique_distinct:
  "distinct (detected_ids tr) \<Longrightarrow> distinct (detected_ids (record_technique now t tr))"
  by (auto simp: record_technique_def detected_ids_def Let_def)

lemma record_all_distinct:
  "distinct (detected_ids tr) \<Longrightarrow> distinct (detected_ids (record_all clock i ts tr))"
  by (induction ts arbitrary: i tr) (auto simp: record_technique_distinct)

lemma run_all_distinct:
  "distinct (detected_ids tr) \<Longrightarrow> distinct (detected_ids (run_all calls tr))"
  by (induction calls arbitrary: tr)
     (auto simp: map_behavior_to_technique_def Let_def record_all_distinct)

lemma map_behavior_twice:
  "snd (map_behavior_to_technique clock2 bi (snd (map_behavior_to_technique clock1 bi tr)))
     = snd (map_behavior_to_technique clock1 bi tr)"
  by (simp add: map_behavior_to_technique_def Let_def record_all_known ids_record_all)

text \<open>
  C5. Recording the same indicator dict a second time on a tracker changes nothing: the
  tracker after the second call is the tracker after the first, so the number of detected
  techniques and the set of detected ids are the same as after recording it once. In every
  tracker reached from a new one by any sequence of calls, the detected ids are pairwise
  distinct: each id is appended at most once.
\<close>

theorem record_behavior_idempotent:
  "length (detected_techniques (snd (map_behavior_to_technique clock2 bi
             (snd (map_behavior_to_technique clock1 bi tr)))))
     = length (detected_techniques (snd (map_behavior_to_technique clock1 bi tr)))
   \<and> set (detected_ids (snd (map_behavior_to_technique clock2 bi
             (snd (map_behavior_to_technique clock1 bi tr)))))
     = set (detected_ids (snd (map_behavior_to_technique clock1 bi tr)))
   \<and> snd (map_behavior_to_technique clock2 bi (snd (map_behavior_to_technique clock1 bi tr)))
     = snd (map_behavior_to_technique clock1 bi tr)
   \<and> distinct (detected_ids (run_all calls new_tracker))"
proof -
  have "distinct (detected_ids new_tracker)"
    by (simp add: detected_ids_def new_tracker_def)
  then have "distinct (detected_ids (run_all calls new_tracker))"
    by (rule run_all_distinct)
  then show ?thesis
    by (simp only: map_behavior_twice simp_thms)
qed

lemma matched_table:
  "matched_techniques bi = map snd (filter (\<lambda>kt. truthy bi (fst kt)) indicator_table)"
  by (simp add: matched_techniques_def indicator_table_def)

lemma matched_restrict:
  "matched_techniques (bi |` set (map fst indicator_table)) = matched_techniques bi"
  by (simp add: matched_techniques_def indicator_table_def truthy_def)

lemma indicator_table_shape:
  "length indicator_table = 6 \<and> distinct (map fst indicator_table)
   \<and> distinct (map snd indicator_table)
   \<and> set (map snd indicator_table) \<subseteq> set (map fst ATTACK_CHAIN)"
  by (simp add: indicator_table_def ATTACK_CHAIN_def)

text \<open>
  C6, as stated, fails: the key \<^verbatim>\<open>shadow_copy_deletion\<close> is not one of the six flags the
  claim lists, yet setting it yields technique T1490; and the decoy-access flag
  (\<^verbatim>\<open>honeypot_hit\<close>), which the claim lists, yields no technique.
\<close>

theorem spec_flags_counterexample:
  "''shadow_copy_deletion'' \<notin> set spec_indicator_flags
   \<and> matched_techniques [''shadow_copy_deletion'' \<mapsto> True] = [''T1490'']
   \<and> ''honeypot_hit'' \<in> set spec_indicator_flags
   \<and> matched_techniques [''honeypot_hit'' \<mapsto> True] = []"
  by (simp add: matched_techniques_def truthy_def spec_indicator_flags_def)

text \<open>
  C6, amended. The lookup of \<^verbatim>\<open>map_behavior_to_technique\<close> has exactly six indicator keys:
  shadow-copy deletion, high entropy, file discovery, process injection, script execution
  and system-info collection. Each maps to exactly one technique id of the attack chain
  (T1490, T1486, T1083, T1055, T1059, T1082, pairwise different). The matched list is, in
  table order, the technique of every table key whose value is truthy; it does not depend
  on any other key of the dict.
\<close>

theorem indicator_table_exact:
  "matched_techniques bi = map snd (filter (\<lambda>kt. truthy bi (fst kt)) indicator_table)
   \<and> matched_techniques (bi |` set (map fst indicator_table)) = matched_techniques bi
   \<and> length indicator_table = 6
   \<and> distinct (map fst indicator_table)
   \<and> distinct (map snd indicator_table)
   \<and> set (map snd indicator_table) \<subseteq> set (map fst ATTACK_CHAIN)"
  using matched_table [of bi] matched_restrict [of bi] indicator_table_shape
  by (simp only: simp_thms)

section \<open>Properties of the feature extractor and the decision engines\<close>

lemma extract_empty:
  assumes "hso = None \<or> (\<exists>hs. hso = Some hs \<and> get_or (hs_compromised hs) 0 = 0)"
  shows "extract_all_features now [] [] hso = Inr [0, 0, 0, 0, 0, 0, 0, 0, 0, 0, 0, 0, 0, 0, 1]"
  using assms
  by (auto simp: extract_all_features_def extract_temporal_features_def extract_file_features_def
        extract_process_features_def extract_honeypot_features_def Let_def)

lemma normalize_empty:
  "normalize_features [0, 0, 0, 0, 0, 0, 0, 0, 0, 0, 0, 0, 0, 0, 1] = empty_tick_vector"
  by (simp add: normalize_features_def max_values_def np_clip_def empty_tick_vector_def)

lemma sum_empty: "feature_sum_of empty_tick_vector = 1 / 2"
  by (simp add: feature_sum_of_def empty_tick_vector_def)

lemma decoys_8_0_compromised: "hs_compromised decoys_8_0 = Some 0"
  by (simp add: decoys_8_0_def)

lemma decoys_8_8_compromised: "hs_compromised decoys_8_8 = Some 8"
  by (simp add: decoys_8_8_def)

lemma decoys_8_5_compromised: "hs_compromised decoys_8_5 = Some 5"
  by (simp add: decoys_8_5_def)

lemma untrained_raises:
  "\<not> is_trained det \<Longrightarrow> predict_with_confidence det X = Inl ValueError"
  by (simp add: predict_with_confidence_def predict_def)

lemma ml_prediction_untrained:
  "\<not> is_trained det \<Longrightarrow> \<not> idle \<Longrightarrow> ml_prediction det idle X = Inl ValueError"
  by (simp add: ml_prediction_def untrained_raises)

lemma busy_raw:
  "extract_all_features 1700000000 [] [heavy_process] (Some decoys_8_5)
     = Inr [0, 0, 0, 0, 0, 100, 2000, 0, 100, 0, 5, 5 / 8, 0, 0, 1]"
  by (simp add: extract_all_features_def extract_temporal_features_def extract_file_features_def
        extract_process_features_def extract_honeypot_features_def Let_def heavy_process_def
        decoys_8_5_def get_or_def get_field_def py_max_def)

lemma busy_norm:
  "normalize_features [0, 0, 0, 0, 0, 100, 2000, 0, 100, 0, 5, 5 / 8, 0, 0, 1]
     = [0, 0, 0, 0, 0, 1, 1, 0, 1, 0, 1 / 2, 5 / 8, 0, 0, 1 / 2]"
  by (simp add: normalize_features_def max_values_def np_clip_def)

lemma busy_sum:
  "feature_sum_of [0, 0, 0, 0, 0, 1, 1, 0, 1, 0, 1 / 2, 5 / 8, 0, 0, 1 / 2] = 37 / 8"
  by (simp add: feature_sum_of_def)

lemma unreadable_raises:
  "extract_all_features t [] [heavy_process, unreadable_process] hso = Inl TypeError"
  by (simp add: extract_all_features_def extract_process_features_def py_max_def get_field_def
        heavy_process_def unreadable_process_def)

lemma try_unreadable:
  "get_system_state_try det t [heavy_process, unreadable_process] hs now = Inl TypeError"
  by (simp add: get_system_state_try_def unreadable_raises)

lemma final_unreadable:
  "analyze_current_state det t [] [heavy_process, unreadable_process] hs = Inl TypeError"
  by (simp add: analyze_current_state_def unreadable_raises)

lemma fallback_on_error:
  assumes "get_system_state_try det t procs hs now = Inl e"
  shows "get_system_state False det t procs hs rnd now = simulate_state rnd now"
  using assms by (simp add: get_system_state_def)

lemma simulate_sample:
  "simulate_state sample_draws now =
     \<lparr>threat_score = 35 / 2, threat_level = LOW, prediction = NORMAL, features = [],
      feature_sum = 2, is_idle = False, honeypot_status_of = decoys_8_0, process_count = 100,
      state_timestamp = now\<rparr>"
  by (simp add: simulate_state_def sample_draws_def decoys_8_0_def)

lemma try_untrained_busy:
  "get_system_state_try untrained_detector 1700000000 [heavy_process] decoys_8_5 now
     = Inl ValueError"
  by (simp add: get_system_state_try_def busy_raw busy_norm busy_sum ml_prediction_def
        predict_with_confidence_def predict_def untrained_detector_def)

lemma final_untrained_busy:
  "analyze_current_state untrained_detector 1700000000 [] [heavy_process] decoys_8_5
     = Inl ValueError"
  by (simp add: analyze_current_state_def busy_raw busy_norm busy_sum ml_prediction_def
        predict_with_confidence_def predict_def untrained_detector_def)

lemma try_Inr_elim:
  assumes "get_system_state_try det t procs hs now = Inr st"
  shows "\<exists>raw p s0 r c.
    extract_all_features t [] (take 50 procs) (Some hs) = Inr raw \<and>
    ml_prediction det (feature_sum_of (normalize_features raw) < 4) (normalize_features raw) = Inr (p, s0, r) \<and>
    hs_compromised hs = Some c \<and>
    st = \<lparr>threat_score = (if c > 0 then max s0 90 else s0),
            threat_level = (if c > 0 \<or> (if c > 0 then max s0 90 else s0) > 70 then CRITICAL
                            else if (if c > 0 then max s0 90 else s0) > 50 then HIGH
                            else if (if c > 0 then max s0 90 else s0) > 30 then MEDIUM else LOW),
            prediction = (if (if c > 0 then True else r) then RANSOMWARE else NORMAL),
            features = normalize_features raw,
            feature_sum = feature_sum_of (normalize_features raw),
            is_idle = (feature_sum_of (normalize_features raw) < 4),
            honeypot_status_of = hs,
            process_count = length procs,
            state_timestamp = now\<rparr>"
proof (cases "extract_all_features t [] (take 50 procs) (Some hs)")
  case (Inl e)
  with assms show ?thesis by (simp add: get_system_state_try_def)
next
  case raw: (Inr raw)
  show ?thesis
  proof (cases "ml_prediction det (feature_sum_of (normalize_features raw) < 4) (normalize_features raw)")
    case (Inl e)
    with assms raw show ?thesis by (simp add: get_system_state_try_def Let_def)
  next
    case ml: (Inr trip)
    obtain p s0 r where trip: "trip = (p, s0, r)" by (cases trip) auto
    show ?thesis
    proof (cases "hs_compromised hs")
      case None
      with assms raw ml trip show ?thesis by (simp add: get_system_state_try_def Let_def)
    next
      case (Some c)
      with assms raw ml trip have
        "st = \<lparr>threat_score = (if c > 0 then max s0 90 else s0),
            threat_level = (if c > 0 \<or> (if c > 0 then max s0 90 else s0) > 70 then CRITICAL
                            else if (if c > 0 then max s0 90 else s0) > 50 then HIGH
                            else if (if c > 0 then max s0 90 else s0) > 30 then MEDIUM else LOW),
            prediction = (if (if c > 0 then True else r) then RANSOMWARE else NORMAL),
            features = normalize_features raw,
            feature_sum = feature_sum_of (normalize_features raw),
            is_idle = (feature_sum_of (normalize_features raw) < 4),
            honeypot_status_of = hs,
            process_count = length procs,
            state_timestamp = now\<rparr>"
        by (auto simp add: get_system_state_try_def Let_def)
      with raw ml trip Some show ?thesis by blast
    qed
  qed
qed

lemma final_Inr_elim:
  assumes "analyze_current_state det t fe procs hs = Inr a"
  shows "\<exists>raw p s0 r c.
    extract_all_features t (filter (\<lambda>e. t - get_or (fe_timestamp e) 0 < 60) fe) procs (Some hs) = Inr raw \<and>
    ml_prediction det (feature_sum_of (normalize_features raw) < 1 / 2) (normalize_features raw) = Inr (p, s0, r) \<and>
    hs_compromised hs = Some c \<and>
    a = \<lparr>threat_score = (if c > 0 then max s0 90 else s0),
           threat_level = (if c > 0 then CRITICAL
                           else if r \<or> s0 > 70 then CRITICAL
                           else if s0 > 50 then HIGH
                           else if s0 > 30 then MEDIUM else LOW),
           prediction = (if (if c > 0 then True else r) then RANSOMWARE else NORMAL),
           features = normalize_features raw,
           feature_sum = feature_sum_of (normalize_features raw),
           is_idle = (feature_sum_of (normalize_features raw) < 1 / 2),
           honeypot_status_of = hs,
           recent_file_events = length (filter (\<lambda>e. t - get_or (fe_timestamp e) 0 < 60) fe),
           suspicious_processes = length (filter (\<lambda>p. 30 < get_or (get_field (p_threat_score p) 0) 0) procs)\<rparr>"
proof (cases "extract_all_features t (filter (\<lambda>e. t - get_or (fe_timestamp e) 0 < 60) fe) procs (Some hs)")
  case (Inl e)
  with assms show ?thesis by (simp add: analyze_current_state_def)
next
  case raw: (Inr raw)
  show ?thesis
  proof (cases "ml_prediction det (feature_sum_of (normalize_features raw) < 1 / 2) (normalize_features raw)")
    case (Inl e)
    with assms raw show ?thesis by (simp add: analyze_current_state_def Let_def)
  next
    case ml: (Inr trip)
    obtain p s0 r where trip: "trip = (p, s0, r)" by (cases trip) auto
    show ?thesis
    proof (cases "hs_compromised hs")
      case None
      with assms raw ml trip show ?thesis by (simp add: analyze_current_state_def Let_def)
    next
      case (Some c)
      with assms raw ml trip have
        "a = \<lparr>threat_score = (if c > 0 then max s0 90 else s0),
           threat_level = (if c > 0 then CRITICAL
                           else if r \<or> s0 > 70 then CRITICAL
                           else if s0 > 50 then HIGH
                           else if s0 > 30 then MEDIUM else LOW),
           prediction = (if (if c > 0 then True else r) then RANSOMWARE else NORMAL),
           features = normalize_features raw,
           feature_sum = feature_sum_of (normalize_features raw),
           is_idle = (feature_sum_of (normalize_features raw) < 1 / 2),
           honeypot_status_of = hs,
           recent_file_events = length (filter (\<lambda>e. t - get_or (fe_timestamp e) 0 < 60) fe),
           suspicious_processes = length (filter (\<lambda>p. 30 < get_or (get_field (p_threat_score p) 0) 0) procs)\<rparr>"
        by (auto simp add: analyze_current_state_def Let_def)
      with raw ml trip Some show ?thesis by blast
    qed
  qed
qed

lemma try_override:
  assumes "get_system_state_try det t procs hs now = Inr st" "hs_compromised hs = Some c" "c > 0"
  shows "prediction st = RANSOMWARE \<and> 90 \<le> threat_score st \<and>
     (\<exists>p s0 r. ml_prediction det (is_idle st) (features st) = Inr (p, s0, r)
        \<and> threat_score st = max s0 90 \<and> s0 \<le> threat_score st)"
proof -
  from try_Inr_elim [OF assms(1)] obtain raw p s0 r c' where
    ml: "ml_prediction det (feature_sum_of (normalize_features raw) < 4) (normalize_features raw) = Inr (p, s0, r)"
    and c': "hs_compromised hs = Some c'"
    and st: "st = \<lparr>threat_score = (if c' > 0 then max s0 90 else s0),
            threat_level = (if c' > 0 \<or> (if c' > 0 then max s0 90 else s0) > 70 then CRITICAL
                            else if (if c' > 0 then max s0 90 else s0) > 50 then HIGH
                            else if (if c' > 0 then max s0 90 else s0) > 30 then MEDIUM else LOW),
            prediction = (if (if c' > 0 then True else r) then RANSOMWARE else NORMAL),
            features = normalize_features raw,
            feature_sum = feature_sum_of (normalize_features raw),
            is_idle = (feature_sum_of (normalize_features raw) < 4),
            honeypot_status_of = hs,
            process_count = length procs,
            state_timestamp = now\<rparr>"
    by blast
  from c' assms(2) have "c' = c" by simp
  with assms(3) st ml show ?thesis by auto
qed

lemma final_override:
  assumes "analyze_current_state det t fe procs hs = Inr a" "hs_compromised hs = Some c" "c > 0"
  shows "prediction a = RANSOMWARE \<and> 90 \<le> threat_score a \<and>
     (\<exists>p s0 r. ml_prediction det (is_idle a) (features a) = Inr (p, s0, r)
        \<and> threat_score a = max s0 90 \<and> s0 \<le> threat_score a)"
proof -
  from final_Inr_elim [OF assms(1)] obtain raw p s0 r c' where
    ml: "ml_prediction det (feature_sum_of (normalize_features raw) < 1 / 2) (normalize_features raw) = Inr (p, s0, r)"
    and c': "hs_compromised hs = Some c'"
    and a: "a = \<lparr>threat_score = (if c' > 0 then max s0 90 else s0),
           threat_level = (if c' > 0 then CRITICAL
                           else if r \<or> s0 > 70 then CRITICAL
                           else if s0 > 50 then HIGH
                           else if s0 > 30 then MEDIUM else LOW),
           prediction = (if (if c' > 0 then True else r) then RANSOMWARE else NORMAL),
           features = normalize_features raw,
           feature_sum = feature_sum_of (normalize_features raw),
           is_idle = (feature_sum_of (normalize_features raw) < 1 / 2),
           honeypot_status_of = hs,
           recent_file_events = length (filter (\<lambda>e. t - get_or (fe_timestamp e) 0 < 60) fe),
           suspicious_processes = length (filter (\<lambda>p. 30 < get_or (get_field (p_threat_score p) 0) 0) procs)\<rparr>"
    by blast
  from c' assms(2) have "c' = c" by simp
  with assms(3) a ml show ?thesis by auto
qed

lemma try_status:
  assumes "get_system_state_try det t procs hs now = Inr st"
  shows "honeypot_status_of st = hs"
  using try_Inr_elim [OF assms] by auto

lemma demo_level_without_label:
  assumes "get_system_state_try det t procs hs now = Inr st" "hs_compromised hs = Some c"
  shows "threat_level st = spec_threat_level c NORMAL (threat_score st)"
proof -
  from try_Inr_elim [OF assms(1)] obtain raw s0 r c' where
    c': "hs_compromised hs = Some c'"
    and st: "st = \<lparr>threat_score = (if c' > 0 then max s0 90 else s0),
            threat_level = (if c' > 0 \<or> (if c' > 0 then max s0 90 else s0) > 70 then CRITICAL
                            else if (if c' > 0 then max s0 90 else s0) > 50 then HIGH
                            else if (if c' > 0 then max s0 90 else s0) > 30 then MEDIUM else LOW),
            prediction = (if (if c' > 0 then True else r) then RANSOMWARE else NORMAL),
            features = normalize_features raw,
            feature_sum = feature_sum_of (normalize_features raw),
            is_idle = (feature_sum_of (normalize_features raw) < 4),
            honeypot_status_of = hs,
            process_count = length procs,
            state_timestamp = now\<rparr>"
    by blast
  from c' assms(2) have "c' = c" by simp
  with st show ?thesis by (simp add: spec_threat_level_def)
qed

lemma final_level_matches_spec:
  assumes "analyze_current_state det t fe procs hs = Inr a" "hs_compromised hs = Some c"
  shows "threat_level a = spec_threat_level c (prediction a) (threat_score a)"
proof -
  from final_Inr_elim [OF assms(1)] obtain raw s0 r c' where
    c': "hs_compromised hs = Some c'"
    and a: "a = \<lparr>threat_score = (if c' > 0 then max s0 90 else s0),
           threat_level = (if c' > 0 then CRITICAL
                           else if r \<or> s0 > 70 then CRITICAL
                           else if s0 > 50 then HIGH
                           else if s0 > 30 then MEDIUM else LOW),
           prediction = (if (if c' > 0 then True else r) then RANSOMWARE else NORMAL),
           features = normalize_features raw,
           feature_sum = feature_sum_of (normalize_features raw),
           is_idle = (feature_sum_of (normalize_features raw) < 1 / 2),
           honeypot_status_of = hs,
           recent_file_events = length (filter (\<lambda>e. t - get_or (fe_timestamp e) 0 < 60) fe),
           suspicious_processes = length (filter (\<lambda>p. 30 < get_or (get_field (p_threat_score p) 0) 0) procs)\<rparr>"
    by blast
  from c' assms(2) have "c' = c" by simp
  with a show ?thesis by (simp add: spec_threat_level_def)
qed

lemma final_empty:
  assumes "hs_compromised hs = Some 0"
  shows "analyze_current_state det now [] [] hs =
     (case predict_with_confidence det empty_tick_vector of
        Inl e \<Rightarrow> Inl e
      | Inr (p, s) \<Rightarrow>
          Inr \<lparr>threat_score = s,
               threat_level = (if p = - 1 \<or> s > 70 then CRITICAL else if s > 50 then HIGH
                               else if s > 30 then MEDIUM else LOW),
               prediction = (if p = - 1 then RANSOMWARE else NORMAL),
               features = empty_tick_vector, feature_sum = 1 / 2, is_idle = False,
               honeypot_status_of = hs, recent_file_events = 0, suspicious_processes = 0\<rparr>)"
  using assms
  by (simp add: analyze_current_state_def extract_empty normalize_empty sum_empty ml_prediction_def
       get_or_def split: option.splits sum.splits)

lemma demo_empty_tick_idle:
  "get_system_state False det now [] decoys_8_0 rnd ts =
     \<lparr>threat_score = 5, threat_level = LOW, prediction = NORMAL, features = empty_tick_vector,
      feature_sum = 1 / 2, is_idle = True, honeypot_status_of = decoys_8_0, process_count = 0,
      state_timestamp = ts\<rparr>"
  by (simp add: get_system_state_def get_system_state_try_def extract_empty normalize_empty sum_empty
        ml_prediction_def decoys_8_0_compromised get_or_def)

text \<open>
  C10. For a tick without file events and without processes, and a decoy status that is
  absent or reports no compromised decoy, the raw feature vector is zero except for the
  activity-consistency default \<open>1\<close>; the normalised vector is zero in every component except
  the last, which is \<open>1/2\<close> (the default divided by its ceiling \<open>2\<close>). The activity mass of
  the tick is therefore exactly \<open>1/2\<close>, and the tick is below an idle threshold exactly when
  that threshold is greater than \<open>1/2\<close>.
\<close>

theorem empty_tick_activity_mass:
  assumes "hso = None \<or> (\<exists>hs. hso = Some hs \<and> get_or (hs_compromised hs) 0 = 0)"
  shows "extract_all_features now [] [] hso = Inr [0, 0, 0, 0, 0, 0, 0, 0, 0, 0, 0, 0, 0, 0, 1]
       \<and> normalize_features [0, 0, 0, 0, 0, 0, 0, 0, 0, 0, 0, 0, 0, 0, 1]
           = [0, 0, 0, 0, 0, 0, 0, 0, 0, 0, 0, 0, 0, 0, 1 / 2]
       \<and> feature_sum_of (normalize_features [0, 0, 0, 0, 0, 0, 0, 0, 0, 0, 0, 0, 0, 0, 1]) = 1 / 2
       \<and> (feature_sum_of (normalize_features [0, 0, 0, 0, 0, 0, 0, 0, 0, 0, 0, 0, 0, 0, 1])
            < idle_threshold) = (1 / 2 < idle_threshold)"
proof -
  have e: "extract_all_features now [] [] hso = Inr [0, 0, 0, 0, 0, 0, 0, 0, 0, 0, 0, 0, 0, 0, 1]"
    using assms by (rule extract_empty)
  have n: "normalize_features [0, 0, 0, 0, 0, 0, 0, 0, 0, 0, 0, 0, 0, 0, 1]
             = [0, 0, 0, 0, 0, 0, 0, 0, 0, 0, 0, 0, 0, 0, 1 / 2]"
    using normalize_empty by (simp add: empty_tick_vector_def)
  have m: "feature_sum_of [0, 0, 0, 0, 0, 0, 0, 0, 0, 0, 0, 0, 0, 0, 1 / 2] = 1 / 2"
    using sum_empty by (simp add: empty_tick_vector_def)
  show ?thesis
    by (simp only: e n m simp_thms)
qed

text \<open>
  C10, witness. The theorem at the decoy status \<open>{8, 0}\<close>: the mass \<open>1/2\<close> is below the threshold \<open>4\<close> of
  the demo backend and not below the threshold \<open>1/2\<close> of the Stage 1 system.
\<close>

theorem empty_tick_activity_mass_witness:
  "get_or (hs_compromised decoys_8_0) 0 = 0
   \<and> extract_all_features 1700000000 [] [] (Some decoys_8_0)
       = Inr [0, 0, 0, 0, 0, 0, 0, 0, 0, 0, 0, 0, 0, 0, 1]
   \<and> feature_sum_of (normalize_features [0, 0, 0, 0, 0, 0, 0, 0, 0, 0, 0, 0, 0, 0, 1]) = 1 / 2
   \<and> feature_sum_of (normalize_features [0, 0, 0, 0, 0, 0, 0, 0, 0, 0, 0, 0, 0, 0, 1]) < 4
   \<and> \<not> feature_sum_of (normalize_features [0, 0, 0, 0, 0, 0, 0, 0, 0, 0, 0, 0, 0, 0, 1]) < 1 / 2"
proof -
  have h: "get_or (hs_compromised decoys_8_0) 0 = 0"
    by (simp add: decoys_8_0_def get_or_def)
  then have hyp: "Some decoys_8_0 = None
      \<or> (\<exists>hs. Some decoys_8_0 = Some hs \<and> get_or (hs_compromised hs) 0 = 0)"
    by simp
  from empty_tick_activity_mass [OF hyp, of 1700000000 4]
       empty_tick_activity_mass [OF hyp, of 1700000000 "1 / 2"] h
  show ?thesis by simp
qed

text \<open>
  C7, evaluated on \<^verbatim>\<open>Stage1IntegratedSystem.analyze_current_state\<close> at empty telemetry and
  decoy status \<open>{8, 0}\<close>: the activity mass \<open>1/2\<close> is not below the threshold \<open>1/2\<close>, so the
  tick is not idle and the verdict is the classifier's. With an untrained classifier the
  call raises \<^verbatim>\<open>ValueError\<close>; with a classifier that answers anomalous at decision value
  \<open>-0.125\<close> the verdict is RANSOMWARE, CRITICAL, score 62.5, not idle. (The demo backend, with
  threshold \<open>4\<close>, returns NORMAL, LOW, idle, score 5 on the same tick: lemma
  \<open>demo_empty_tick_idle\<close>.)
\<close>

theorem final_empty_tick_not_idle:
  "analyze_current_state det now [] [] decoys_8_0 =
     (case predict_with_confidence det empty_tick_vector of
        Inl e \<Rightarrow> Inl e
      | Inr (p, s) \<Rightarrow>
          Inr \<lparr>threat_score = s,
               threat_level = (if p = - 1 \<or> s > 70 then CRITICAL else if s > 50 then HIGH
                               else if s > 30 then MEDIUM else LOW),
               prediction = (if p = - 1 then RANSOMWARE else NORMAL),
               features = empty_tick_vector, feature_sum = 1 / 2, is_idle = False,
               honeypot_status_of = decoys_8_0, recent_file_events = 0,
               suspicious_processes = 0\<rparr>)
   \<and> analyze_current_state untrained_detector now [] [] decoys_8_0 = Inl ValueError
   \<and> analyze_current_state anomalous_detector now [] [] decoys_8_0 =
       Inr \<lparr>threat_score = 125 / 2, threat_level = CRITICAL, prediction = RANSOMWARE,
            features = empty_tick_vector, feature_sum = 1 / 2, is_idle = False,
            honeypot_status_of = decoys_8_0, recent_file_events = 0,
            suspicious_processes = 0\<rparr>"
  by (simp add: final_empty [OF decoys_8_0_compromised] predict_with_confidence_def predict_def
        predict_proba_def untrained_detector_def anomalous_detector_def np_clip_def)

lemma numbers_absent:
  "\<forall>p \<in> set ps. f p = Absent \<Longrightarrow>
     numbers_of (map (\<lambda>p. get_field (f p) d) ps) = Inr (map (\<lambda>p. d) ps)"
  by (induction ps) (simp_all add: get_field_def)

lemma monitor_process_features:
  assumes "\<forall>p \<in> set ps. p_threat_score p = Absent \<and> p_start_time p = Absent"
    and "60 \<le> t"
    and "extract_process_features t ps = Inr pf"
  shows "\<exists>a b d. pf = [a, Some b, Some 0, Some d, Some 0]"
proof (cases "ps = []")
  case True
  with assms(3) show ?thesis by (auto simp: extract_process_features_def)
next
  case False
  from assms(1) have ts: "numbers_of (map (\<lambda>p. get_field (p_threat_score p) 0) ps)
      = Inr (map (\<lambda>p. 0) ps)"
    by (intro numbers_absent) simp
  from assms(1) have st: "numbers_of (map (\<lambda>p. get_field (p_start_time p) 0) ps)
      = Inr (map (\<lambda>p. 0) ps)"
    by (intro numbers_absent) simp
  from assms(2) have nonew: "filter (\<lambda>s. t - s < 60) (map (\<lambda>p. 0) ps) = []"
    by (induction ps) simp_all
  have nosusp: "filter (\<lambda>s. s > (30::real)) (map (\<lambda>p. 0) ps) = []"
    by (induction ps) simp_all
  from assms(3) False ts st nonew nosusp show ?thesis
    by (auto simp: extract_process_features_def Let_def split: sum.splits)
qed

lemma clip_unit: "\<bar>np_clip x 0 1\<bar> \<le> 1"
  by (simp add: np_clip_def)

lemma monitor_mass:
  "feature_sum_of (normalize_features [0, 0, 0, 0, 0, a, b, 0, d, 0, 0, 0, 0, 0, 1]) \<le> 7 / 2"
proof -
  have "feature_sum_of (normalize_features [0, 0, 0, 0, 0, a, b, 0, d, 0, 0, 0, 0, 0, 1])
          = \<bar>np_clip (a / 100) 0 1\<bar> + \<bar>np_clip (b / 2000) 0 1\<bar> + \<bar>np_clip (d / 100) 0 1\<bar>
            + 1 / 2"
    by (simp add: feature_sum_of_def normalize_features_def max_values_def)
       (simp add: np_clip_def)
  with clip_unit [of "a / 100"] clip_unit [of "b / 2000"] clip_unit [of "d / 100"]
  show ?thesis by linarith
qed

lemma monitor_tick_idle:
  assumes shape: "\<forall>p \<in> set (take 50 procs). p_threat_score p = Absent \<and> p_start_time p = Absent"
    and t: "60 \<le> t"
    and c: "hs_compromised hs = Some 0"
    and st: "get_system_state_try det t procs hs now = Inr st"
  shows "is_idle st \<and> prediction st = NORMAL \<and> threat_level st = LOW \<and> threat_score st = 5"
proof -
  from try_Inr_elim [OF st] obtain raw p s0 r c' where
    raw: "extract_all_features t [] (take 50 procs) (Some hs) = Inr raw"
    and ml: "ml_prediction det (feature_sum_of (normalize_features raw) < 4) (normalize_features raw)
               = Inr (p, s0, r)"
    and c': "hs_compromised hs = Some c'"
    and eq: "st = \<lparr>threat_score = (if c' > 0 then max s0 90 else s0),
            threat_level = (if c' > 0 \<or> (if c' > 0 then max s0 90 else s0) > 70 then CRITICAL
                            else if (if c' > 0 then max s0 90 else s0) > 50 then HIGH
                            else if (if c' > 0 then max s0 90 else s0) > 30 then MEDIUM else LOW),
            prediction = (if (if c' > 0 then True else r) then RANSOMWARE else NORMAL),
            features = normalize_features raw,
            feature_sum = feature_sum_of (normalize_features raw),
            is_idle = (feature_sum_of (normalize_features raw) < 4),
            honeypot_status_of = hs,
            process_count = length procs,
            state_timestamp = now\<rparr>"
    by blast
  from c c' have c0: "c' = 0" by simp
  from raw obtain pf pn where
    pf: "extract_process_features t (take 50 procs) = Inr pf"
    and pn: "numbers_of pf = Inr pn"
    and rw: "raw = extract_file_features t [] @ pn @ extract_honeypot_features (Some hs) @ [0, 0, 1]"
    by (auto simp: extract_all_features_def extract_temporal_features_def split: sum.splits)
  from monitor_process_features [OF shape t pf] obtain a b d where
    "pf = [a, Some b, Some 0, Some d, Some 0]" by blast
  with pn obtain a' where "pn = [a', b, 0, d, 0]"
    by (auto split: option.splits)
  with rw c have "raw = [0, 0, 0, 0, 0, a', b, 0, d, 0, 0, 0, 0, 0, 1]"
    by (simp add: extract_file_features_def extract_honeypot_features_def get_or_def Let_def)
  with monitor_mass [of a' b d] have idle: "feature_sum_of (normalize_features raw) < 4"
    by simp
  with ml have "s0 = 5 \<and> \<not> r" by (simp add: ml_prediction_def)
  with eq c0 idle show ?thesis by simp
qed

text \<open>
  C1, evaluated on the demo backend \<^verbatim>\<open>IntegratedBackend.get_system_state\<close> with an
  untrained classifier, one process at 100 per cent CPU holding 2000 MB with 100 MiB
  written, and five of eight decoys compromised. The activity mass is \<open>37/8 = 4.625\<close>, not
  below the idle threshold \<open>4\<close>; the classifier raises \<^verbatim>\<open>ValueError\<close> inside the \<^verbatim>\<open>try\<close>
  block, and \<^verbatim>\<open>get_system_state\<close> returns the simulated state: label NORMAL, level LOW, no
  error reaching the caller. On the same tick \<^verbatim>\<open>Stage1IntegratedSystem.analyze_current_state\<close>
  lets the \<^verbatim>\<open>ValueError\<close> reach its caller.
\<close>

theorem untrained_nonidle_returns_normal:
  "extract_all_features 1700000000 [] (take 50 [heavy_process]) (Some decoys_8_5)
     = Inr [0, 0, 0, 0, 0, 100, 2000, 0, 100, 0, 5, 5 / 8, 0, 0, 1]
   \<and> feature_sum_of (normalize_features [0, 0, 0, 0, 0, 100, 2000, 0, 100, 0, 5, 5 / 8, 0, 0, 1])
       = 37 / 8
   \<and> predict_with_confidence untrained_detector
        (normalize_features [0, 0, 0, 0, 0, 100, 2000, 0, 100, 0, 5, 5 / 8, 0, 0, 1])
       = Inl ValueError
   \<and> get_system_state_try untrained_detector 1700000000 [heavy_process] decoys_8_5 0
       = Inl ValueError
   \<and> get_system_state False untrained_detector 1700000000 [heavy_process] decoys_8_5
        sample_draws 0
       = \<lparr>threat_score = 35 / 2, threat_level = LOW, prediction = NORMAL, features = [],
          feature_sum = 2, is_idle = False, honeypot_status_of = decoys_8_0,
          process_count = 100, state_timestamp = 0\<rparr>
   \<and> analyze_current_state untrained_detector 1700000000 [] [heavy_process] decoys_8_5
       = Inl ValueError"
proof -
  have raw: "extract_all_features 1700000000 [] (take 50 [heavy_process]) (Some decoys_8_5)
     = Inr [0, 0, 0, 0, 0, 100, 2000, 0, 100, 0, 5, 5 / 8, 0, 0, 1]"
    by (simp add: busy_raw)
  have mass: "feature_sum_of
      (normalize_features [0, 0, 0, 0, 0, 100, 2000, 0, 100, 0, 5, 5 / 8, 0, 0, 1]) = 37 / 8"
    by (simp only: busy_norm busy_sum)
  have clf: "predict_with_confidence untrained_detector
        (normalize_features [0, 0, 0, 0, 0, 100, 2000, 0, 100, 0, 5, 5 / 8, 0, 0, 1])
       = Inl ValueError"
    by (rule untrained_raises) (simp add: untrained_detector_def)
  have demo: "get_system_state False untrained_detector 1700000000 [heavy_process] decoys_8_5
        sample_draws 0
       = \<lparr>threat_score = 35 / 2, threat_level = LOW, prediction = NORMAL, features = [],
          feature_sum = 2, is_idle = False, honeypot_status_of = decoys_8_0,
          process_count = 100, state_timestamp = 0\<rparr>"
    by (simp only: fallback_on_error [OF try_untrained_busy] simulate_sample)
  from raw mass clf try_untrained_busy demo final_untrained_busy show ?thesis
    by (intro conjI)
qed

text \<open>
  C2, evaluated on the demo backend with all eight decoys compromised and a process list in
  which one \<^verbatim>\<open>cpu_percent\<close> is \<^verbatim>\<open>None\<close>. The extractor raises \<^verbatim>\<open>TypeError\<close> inside the
  \<^verbatim>\<open>try\<close> block, before the decoy override is reached, and \<^verbatim>\<open>get_system_state\<close> returns
  the simulated state: label NORMAL and score \<open>17.5\<close>, below 90, whatever the classifier
  would answer, with a decoy status that reports no compromised decoy. (On every verdict
  that the \<^verbatim>\<open>try\<close> block or \<^verbatim>\<open>analyze_current_state\<close> computes, the override holds: lemmas
  \<open>try_override\<close> and \<open>final_override\<close>.)
\<close>

theorem fallback_drops_decoy_override:
  "hs_compromised decoys_8_8 = Some 8
   \<and> get_system_state_try calm_detector 1700000000 [heavy_process, unreadable_process]
        decoys_8_8 0 = Inl TypeError
   \<and> get_system_state False calm_detector 1700000000 [heavy_process, unreadable_process]
        decoys_8_8 sample_draws 0
       = \<lparr>threat_score = 35 / 2, threat_level = LOW, prediction = NORMAL, features = [],
          feature_sum = 2, is_idle = False, honeypot_status_of = decoys_8_0,
          process_count = 100, state_timestamp = 0\<rparr>
   \<and> get_system_state False anomalous_detector 1700000000 [heavy_process, unreadable_process]
        decoys_8_8 sample_draws 0
       = \<lparr>threat_score = 35 / 2, threat_level = LOW, prediction = NORMAL, features = [],
          feature_sum = 2, is_idle = False, honeypot_status_of = decoys_8_0,
          process_count = 100, state_timestamp = 0\<rparr>
   \<and> threat_score (get_system_state False calm_detector 1700000000
          [heavy_process, unreadable_process] decoys_8_8 sample_draws 0) < 90
   \<and> analyze_current_state calm_detector 1700000000 [] [heavy_process, unreadable_process]
        decoys_8_8 = Inl TypeError"
proof -
  have st: "get_system_state False det 1700000000 [heavy_process, unreadable_process]
        decoys_8_8 sample_draws 0
       = \<lparr>threat_score = 35 / 2, threat_level = LOW, prediction = NORMAL, features = [],
          feature_sum = 2, is_idle = False, honeypot_status_of = decoys_8_0,
          process_count = 100, state_timestamp = 0\<rparr>" for det
    by (simp only: fallback_on_error [OF try_unreadable] simulate_sample)
  have lt: "threat_score (get_system_state False calm_detector 1700000000
          [heavy_process, unreadable_process] decoys_8_8 sample_draws 0) < 90"
    by (simp add: st)
  from decoys_8_8_compromised try_unreadable st [of calm_detector] st [of anomalous_detector]
    lt final_unreadable
  show ?thesis by (intro conjI)
qed

text \<open>
  C3, evaluated on the demo backend with five of eight decoys compromised and a process list
  in which one \<^verbatim>\<open>cpu_percent\<close> is \<^verbatim>\<open>None\<close>. The state returned has level LOW, while the
  stated function of the tick's decoy count, the returned label and the returned score
  gives CRITICAL; the state reports the decoy status \<open>{8, 0}\<close>, not the tick's. (Every
  verdict of \<^verbatim>\<open>analyze_current_state\<close> has the stated level: lemma
  \<open>final_level_matches_spec\<close>. The level test of the demo backend's \<^verbatim>\<open>try\<close> block does not
  read the label, lemma \<open>demo_level_without_label\<close>, but with the process dicts of the
  process monitor a tick without compromised decoy is idle, NORMAL and LOW: lemma
  \<open>monitor_tick_idle\<close>.)
\<close>

theorem fallback_level_ignores_decoys:
  "hs_compromised decoys_8_5 = Some 5
   \<and> get_system_state_try anomalous_detector 1700000000 [heavy_process, unreadable_process]
        decoys_8_5 0 = Inl TypeError
   \<and> threat_level (get_system_state False anomalous_detector 1700000000
          [heavy_process, unreadable_process] decoys_8_5 sample_draws 0) = LOW
   \<and> spec_threat_level 5
        (prediction (get_system_state False anomalous_detector 1700000000
           [heavy_process, unreadable_process] decoys_8_5 sample_draws 0))
        (threat_score (get_system_state False anomalous_detector 1700000000
           [heavy_process, unreadable_process] decoys_8_5 sample_draws 0)) = CRITICAL
   \<and> honeypot_status_of (get_system_state False anomalous_detector 1700000000
          [heavy_process, unreadable_process] decoys_8_5 sample_draws 0) = decoys_8_0"
proof -
  have st: "get_system_state False anomalous_detector 1700000000
        [heavy_process, unreadable_process] decoys_8_5 sample_draws 0
       = \<lparr>threat_score = 35 / 2, threat_level = LOW, prediction = NORMAL, features = [],
          feature_sum = 2, is_idle = False, honeypot_status_of = decoys_8_0,
          process_count = 100, state_timestamp = 0\<rparr>"
    by (simp only: fallback_on_error [OF try_unreadable] simulate_sample)
  have lv: "threat_level (get_system_state False anomalous_detector 1700000000
          [heavy_process, unreadable_process] decoys_8_5 sample_draws 0) = LOW"
    by (simp add: st)
  have sp: "spec_threat_level 5
        (prediction (get_system_state False anomalous_detector 1700000000
           [heavy_process, unreadable_process] decoys_8_5 sample_draws 0))
        (threat_score (get_system_state False anomalous_detector 1700000000
           [heavy_process, unreadable_process] decoys_8_5 sample_draws 0)) = CRITICAL"
    by (simp add: spec_threat_level_def)
  have hs: "honeypot_status_of (get_system_state False anomalous_detector 1700000000
          [heavy_process, unreadable_process] decoys_8_5 sample_draws 0) = decoys_8_0"
    by (simp add: st)
  from decoys_8_5_compromised try_unreadable lv sp hs show ?thesis by (intro conjI)
qed

section \<open>Properties of the mitigation engine and the pipeline\<close>

lemma kill_not_found:
  assumes "pid = None \<or> (\<exists>p. pid = Some p \<and> p < 2 ^ 31 \<and> (p \<le> 0 \<or> \<not> pid_exists env p))"
  shows "kill_malicious_process env now pid
           = (new_action ''KILL_PROCESS'' now)\<lparr>action_details := Some ProcessNotFound,
                                                 success := True\<rparr>"
  using assms
  by (auto simp: kill_malicious_process_def kill_try_def psutil_pid_exists_def Let_def)

lemma kill_vanished:
  assumes "0 < p" "p < 2 ^ 31" "pid_exists env p" "kill_process env p = Inl NoSuchProcess"
  shows "kill_malicious_process env now (Some p)
           = (new_action ''KILL_PROCESS'' now)\<lparr>success := True,
                                                 action_details := Some ProcessAlreadyTerminated\<rparr>"
  using assms
  by (simp add: kill_malicious_process_def kill_try_def psutil_pid_exists_def Let_def)

lemma kill_result_absent:
  assumes "pid = None
           \<or> (\<exists>p. pid = Some p \<and> p < 2 ^ 31
                \<and> (p \<le> 0 \<or> \<not> pid_exists env p \<or> kill_process env p = Inl NoSuchProcess))"
  shows "success (kill_malicious_process env now pid)
       \<and> action_error (kill_malicious_process env now pid) = None
       \<and> (action_details (kill_malicious_process env now pid) = Some ProcessNotFound
          \<or> action_details (kill_malicious_process env now pid) = Some ProcessAlreadyTerminated)"
proof (cases "pid = None \<or> (\<exists>p. pid = Some p \<and> p < 2 ^ 31 \<and> (p \<le> 0 \<or> \<not> pid_exists env p))")
  case True
  then show ?thesis by (simp only: kill_not_found) (simp add: new_action_def)
next
  case False
  with assms obtain p where p: "pid = Some p" "0 < p" "p < 2 ^ 31" "pid_exists env p"
      "kill_process env p = Inl NoSuchProcess"
    by force
  from kill_vanished [OF p(2-5)] p(1) show ?thesis by (simp add: new_action_def)
qed

lemma kill_result_overflow:
  assumes "2 ^ 31 \<le> p"
  shows "kill_malicious_process env now (Some p)
           = (new_action ''KILL_PROCESS'' now)\<lparr>action_error := Some (overflow_message env)\<rparr>"
  using assms
  by (simp add: kill_malicious_process_def kill_try_def psutil_pid_exists_def Let_def)

lemma kill_name: "action_name (kill_malicious_process env now pid) = ''KILL_PROCESS''"
  by (simp add: kill_malicious_process_def kill_try_def psutil_pid_exists_def new_action_def
        Let_def split: option.splits sum.splits step_exn.splits bool.splits)

lemma lock_name: "action_name (lock_critical_folders dm cfg sf env now) = ''LOCK_FOLDERS''"
  by (simp add: lock_critical_folders_def new_action_def Let_def
        split: option.splits prod.splits)

lemma execute_actions:
  "actions_taken (fst (execute_mitigation eng env clk td)) =
     [kill_malicious_process env (mc_kill clk) (td_pid td),
      lock_critical_folders (eng_demo_mode eng) (eng_config eng) (eng_safe_folder eng) env (mc_lock clk)]
     @ (if auto_isolate (eng_config eng) then [isolate_network (eng_demo_mode eng) env (mc_isolate clk)] else [])
     @ (if auto_restore (eng_config eng) then [restore_from_backup (eng_config eng) env (mc_restore clk)] else [])"
  by (simp add: execute_mitigation_def Let_def)

lemma execute_status:
  "mr_status (fst (execute_mitigation eng env clk td)) = SUCCESS"
  by (simp add: execute_mitigation_def Let_def)

lemma execute_log:
  "response_log (snd (execute_mitigation eng env clk td))
     = response_log eng @ [fst (execute_mitigation eng env clk td)]"
  by (simp add: execute_mitigation_def Let_def)

lemma total_seconds_lt: "(total_seconds e s < 10) = (e - s < 10000000)"
proof -
  have "(total_seconds e s < 10) = (real_of_int (e - s) < real_of_int 10000000)"
    by (simp add: total_seconds_def)
  also have "\<dots> = (e - s < 10000000)"
    by (rule of_int_less_iff)
  finally show ?thesis .
qed

lemma respond_Inr:
  assumes "snd (respond_to_threat pl env clk dd) = Inr pkg"
  shows "mitigation_result_of pkg =
           fst (execute_mitigation (mitigation_engine pl) env (pc_mitigation clk)
                  \<lparr>td_threat_id = Some (pc_incident clk), td_pid = dd_pid dd\<rparr>)
       \<and> mitigation_engine (fst (respond_to_threat pl env clk dd)) =
           snd (execute_mitigation (mitigation_engine pl) env (pc_mitigation clk)
                  \<lparr>td_threat_id = Some (pc_incident clk), td_pid = dd_pid dd\<rparr>)
       \<and> total_response_time pkg = total_seconds (pc_end clk) (pc_start clk)
       \<and> target_met pkg = (pc_end clk - pc_start clk < 10000000)"
  using assms
  by (auto simp: respond_to_threat_def Let_def total_seconds_lt split: prod.splits option.splits)

lemma respond_two_steps:
  assumes "snd (respond_to_threat pl env clk dd) = Inr pkg"
    and "\<not> auto_isolate (eng_config (mitigation_engine pl))"
    and "\<not> auto_restore (eng_config (mitigation_engine pl))"
  shows "actions_taken (mitigation_result_of pkg) =
           [kill_malicious_process env (mc_kill (pc_mitigation clk)) (dd_pid dd),
            lock_critical_folders (eng_demo_mode (mitigation_engine pl))
              (eng_config (mitigation_engine pl)) (eng_safe_folder (mitigation_engine pl)) env
              (mc_lock (pc_mitigation clk))]"
  using respond_Inr [OF assms(1)] assms(2,3) by (simp add: execute_actions)

lemma respond_raises_iff:
  "(snd (respond_to_threat pl env clk dd) = Inl KeyError)
     = (detected_techniques (snd (map_behavior_to_technique (pc_tracker clk)
          (get_or (dd_indicators dd) Map.empty) (attack_tracker pl))) = [])"
  by (auto simp: respond_to_threat_def predict_next_stage_def Let_def
        split: prod.splits option.splits)

lemma respond_raises_before_steps:
  assumes "snd (respond_to_threat pl env clk dd) = Inl e"
  shows "mitigation_engine (fst (respond_to_threat pl env clk dd)) = mitigation_engine pl"
  using assms
  by (auto simp: respond_to_threat_def Let_def split: prod.splits option.splits)

text \<open>
  C9, as stated, fails at a pid that is too large for the platform's pid type. Such a pid
  names no process, \<^verbatim>\<open>psutil.pid_exists\<close> raises \<^verbatim>\<open>OverflowError\<close>, and the generic handler
  of the step records the error and leaves \<open>success = False\<close>.
\<close>

theorem kill_out_of_range_pid_fails:
  "pid_exists quiet_env 2147483648 = False
   \<and> success (kill_malicious_process quiet_env 3 (Some 2147483648)) = False
   \<and> action_error (kill_malicious_process quiet_env 3 (Some 2147483648))
       = Some ''Python int too large to convert to C int''
   \<and> action_details (kill_malicious_process quiet_env 3 (Some 2147483648)) = None"
  by (simp add: kill_malicious_process_def kill_try_def psutil_pid_exists_def new_action_def
        quiet_env_def)

text \<open>
  C9, amended. \<^verbatim>\<open>kill_malicious_process\<close> returns a \<^verbatim>\<open>KILL_PROCESS\<close> step result for every
  pid, and the orchestrator finishes with status SUCCESS with that result first in its
  action list: no exception leaves the step. The result has \<open>success = True\<close> and no error
  when \<open>pid\<close> is \<^verbatim>\<open>None\<close>, or is below \<open>2^31\<close> and is zero, negative, not in the process table
  or gone by the time the process is opened (\<^verbatim>\<open>psutil.NoSuchProcess\<close>). For a pid of
  \<open>2^31\<close> or more the result has \<open>success = False\<close> and carries the text of the
  \<^verbatim>\<open>OverflowError\<close>.
\<close>

theorem kill_step_outcome:
  "action_name (kill_malicious_process env now pid) = ''KILL_PROCESS''
   \<and> mr_status (fst (execute_mitigation eng env clk td)) = SUCCESS
   \<and> hd (actions_taken (fst (execute_mitigation eng env clk td)))
       = kill_malicious_process env (mc_kill clk) (td_pid td)
   \<and> (pid = None
        \<or> (\<exists>p. pid = Some p \<and> p < 2 ^ 31
              \<and> (p \<le> 0 \<or> \<not> pid_exists env p \<or> kill_process env p = Inl NoSuchProcess))
       \<longrightarrow> success (kill_malicious_process env now pid)
           \<and> action_error (kill_malicious_process env now pid) = None
           \<and> (action_details (kill_malicious_process env now pid) = Some ProcessNotFound
              \<or> action_details (kill_malicious_process env now pid)
                   = Some ProcessAlreadyTerminated))
   \<and> (\<forall>p. pid = Some p \<and> 2 ^ 31 \<le> p
       \<longrightarrow> \<not> success (kill_malicious_process env now pid)
           \<and> action_error (kill_malicious_process env now pid) = Some (overflow_message env)
           \<and> action_details (kill_malicious_process env now pid) = None)"
proof (intro conjI impI allI)
  show "action_name (kill_malicious_process env now pid) = ''KILL_PROCESS''"
    by (rule kill_name)
  show "mr_status (fst (execute_mitigation eng env clk td)) = SUCCESS"
    by (rule execute_status)
  show "hd (actions_taken (fst (execute_mitigation eng env clk td)))
       = kill_malicious_process env (mc_kill clk) (td_pid td)"
    by (simp add: execute_actions)
next
  assume a: "pid = None
        \<or> (\<exists>p. pid = Some p \<and> p < 2 ^ 31
              \<and> (p \<le> 0 \<or> \<not> pid_exists env p \<or> kill_process env p = Inl NoSuchProcess))"
  note k = kill_result_absent [OF a, of now]
  from k show "success (kill_malicious_process env now pid)" by blast
  from k show "action_error (kill_malicious_process env now pid) = None" by blast
  from k show "action_details (kill_malicious_process env now pid) = Some ProcessNotFound
              \<or> action_details (kill_malicious_process env now pid)
                   = Some ProcessAlreadyTerminated" by blast
next
  fix p assume b: "pid = Some p \<and> 2 ^ 31 \<le> p"
  then have eq: "kill_malicious_process env now pid
      = (new_action ''KILL_PROCESS'' now)\<lparr>action_error := Some (overflow_message env)\<rparr>"
    by (simp add: kill_result_overflow)
  show "\<not> success (kill_malicious_process env now pid)"
    by (simp add: eq new_action_def)
  show "action_error (kill_malicious_process env now pid) = Some (overflow_message env)"
    by (simp add: eq new_action_def)
  show "action_details (kill_malicious_process env now pid) = None"
    by (simp add: eq new_action_def)
qed

text \<open>
  C9, witness. The amended claim at \<^verbatim>\<open>pid = None\<close>, at a pid that names no process, and
  at the pid \<open>2^31\<close>.
\<close>

theorem kill_step_outcome_witness:
  "success (kill_malicious_process quiet_env 3 None)
   \<and> action_error (kill_malicious_process quiet_env 3 None) = None
   \<and> (1234::int) < 2 ^ 31 \<and> \<not> pid_exists quiet_env 1234
   \<and> success (kill_malicious_process quiet_env 3 (Some 1234))
   \<and> action_error (kill_malicious_process quiet_env 3 (Some 1234)) = None
   \<and> (2 ^ 31 :: int) \<le> 2147483648
   \<and> \<not> success (kill_malicious_process quiet_env 3 (Some 2147483648))
   \<and> action_error (kill_malicious_process quiet_env 3 (Some 2147483648))
       = Some (overflow_message quiet_env)"
proof -
  have a: "(None :: int option) = None
        \<or> (\<exists>p. None = Some p \<and> p < 2 ^ 31
              \<and> (p \<le> 0 \<or> \<not> pid_exists quiet_env p \<or> kill_process quiet_env p = Inl NoSuchProcess))"
    by simp
  have e: "\<not> pid_exists quiet_env 1234" by (simp add: quiet_env_def)
  have l: "(1234::int) < 2 ^ 31" by simp
  from e l have b: "Some 1234 = None
        \<or> (\<exists>p. Some 1234 = Some p \<and> p < 2 ^ 31
              \<and> (p \<le> 0 \<or> \<not> pid_exists quiet_env p \<or> kill_process quiet_env p = Inl NoSuchProcess))"
    by simp
  have g: "(2 ^ 31 :: int) \<le> 2147483648" by simp
  then have c: "Some 2147483648 = Some (2147483648::int) \<and> (2 ^ 31 :: int) \<le> 2147483648"
    by simp
  from kill_step_outcome [of quiet_env 3 None two_step_engine
         "\<lparr>mc_start = 2, mc_kill = 3, mc_lock = 4, mc_isolate = 5, mc_restore = 6, mc_end = 7\<rparr>"
         "\<lparr>td_threat_id = None, td_pid = None\<rparr>"] a
  have r1: "success (kill_malicious_process quiet_env 3 None)
            \<and> action_error (kill_malicious_process quiet_env 3 None) = None"
    by blast
  from kill_step_outcome [of quiet_env 3 "Some 1234" two_step_engine
         "\<lparr>mc_start = 2, mc_kill = 3, mc_lock = 4, mc_isolate = 5, mc_restore = 6, mc_end = 7\<rparr>"
         "\<lparr>td_threat_id = None, td_pid = Some 1234\<rparr>"] b
  have r2: "success (kill_malicious_process quiet_env 3 (Some 1234))
            \<and> action_error (kill_malicious_process quiet_env 3 (Some 1234)) = None"
    by blast
  from kill_step_outcome [of quiet_env 3 "Some 2147483648" two_step_engine
         "\<lparr>mc_start = 2, mc_kill = 3, mc_lock = 4, mc_isolate = 5, mc_restore = 6, mc_end = 7\<rparr>"
         "\<lparr>td_threat_id = None, td_pid = Some 2147483648\<rparr>"] c
  have r3: "\<not> success (kill_malicious_process quiet_env 3 (Some 2147483648))
            \<and> action_error (kill_malicious_process quiet_env 3 (Some 2147483648))
                = Some (overflow_message quiet_env)"
    by blast
  from r1 l e r2 g r3 show ?thesis by (intro conjI) blast+
qed

lemma decoy_only_matches_nothing:
  "matched_techniques (get_or (dd_indicators decoy_only_detection) Map.empty) = []"
  by (simp add: matched_techniques_def truthy_def get_or_def decoy_only_detection_def)

lemma sample_run:
  "snd (respond_to_threat sample_pipeline quiet_env (sample_clock us) sample_detection) = Inr
     \<lparr>incident_id = ''INC_20250101_000000'',
      total_response_time = total_seconds us 0,
      attack_analysis_of =
        \<lparr>aa_detected_techniques = [''T1486''], aa_current_stage = 8,
         aa_urgency = calculate_urgency
            (snd (map_behavior_to_technique (\<lambda>i. 1) [''high_entropy'' \<mapsto> True] new_tracker)),
         aa_predictions = predict_next_stage
            (snd (map_behavior_to_technique (\<lambda>i. 1) [''high_entropy'' \<mapsto> True] new_tracker))\<rparr>,
      mitigation_result_of =
        \<lparr>mr_timestamp = 2, mr_threat_id = ''INC_20250101_000000'',
         actions_taken = [kill_malicious_process quiet_env 3 (Some 1234),
                          lock_critical_folders True (eng_config two_step_engine)
                            ''Safe_Demo_Folder'' quiet_env 4],
         mr_status = SUCCESS, response_time_seconds = Some (total_seconds 7 2),
         mr_error = None\<rparr>,
      target_met = (us < 10000000)\<rparr>"
  by (simp add: respond_to_threat_def predict_next_stage_def map_behavior_to_technique_def
        matched_techniques_def truthy_def get_or_def sample_detection_def sample_pipeline_def
        sample_clock_def new_tracker_def record_technique_def Let_def execute_mitigation_def
        two_step_engine_def total_seconds_lt chain_stage_def chain_name_def
        chain_description_def ATTACK_CHAIN_def)

text \<open>
  C8, evaluated on \<^verbatim>\<open>Stage3ProtectionPipeline.respond_to_threat\<close> with \<open>auto_isolate\<close> and
  \<open>auto_restore\<close> both false. For a detection whose only indicator is the decoy hit, on a
  pipeline whose tracker has recorded nothing, the behaviour mapping finds no technique,
  \<^verbatim>\<open>predict_next_stage\<close> returns its dict without \<^verbatim>\<open>current_stage\<close>, and the method raises
  \<^verbatim>\<open>KeyError\<close> before \<^verbatim>\<open>execute_mitigation\<close> is called: the incident is counted, the engine
  is unchanged, its log is empty, and there is neither a step result nor a \<open>target_met\<close>.
  For the same pid and a detection with the \<^verbatim>\<open>high_entropy\<close> indicator, the package carries
  the result of \<^verbatim>\<open>kill_malicious_process\<close> on the pid followed by the result of
  \<^verbatim>\<open>lock_critical_folders\<close> and nothing else, and \<open>target_met\<close> is true for a response
  measured at 3 seconds and false for one measured at 12 seconds.
\<close>

theorem decoy_only_detection_runs_no_step:
  "auto_isolate (eng_config (mitigation_engine sample_pipeline)) = False
   \<and> auto_restore (eng_config (mitigation_engine sample_pipeline)) = False
   \<and> detected_techniques (attack_tracker sample_pipeline) = []
   \<and> snd (respond_to_threat sample_pipeline quiet_env (sample_clock 3000000)
            decoy_only_detection) = Inl KeyError
   \<and> incident_count (fst (respond_to_threat sample_pipeline quiet_env (sample_clock 3000000)
                            decoy_only_detection)) = 1
   \<and> mitigation_engine (fst (respond_to_threat sample_pipeline quiet_env (sample_clock 3000000)
                               decoy_only_detection)) = two_step_engine
   \<and> response_log (mitigation_engine (fst (respond_to_threat sample_pipeline quiet_env
                                             (sample_clock 3000000) decoy_only_detection))) = []
   \<and> (\<exists>pkg. snd (respond_to_threat sample_pipeline quiet_env (sample_clock 3000000)
                    sample_detection) = Inr pkg
            \<and> actions_taken (mitigation_result_of pkg)
                = [kill_malicious_process quiet_env 3 (Some 1234),
                   lock_critical_folders True (eng_config two_step_engine) ''Safe_Demo_Folder''
                     quiet_env 4]
            \<and> target_met pkg = True)
   \<and> (\<exists>pkg. snd (respond_to_threat sample_pipeline quiet_env (sample_clock 12000000)
                    sample_detection) = Inr pkg
            \<and> actions_taken (mitigation_result_of pkg)
                = [kill_malicious_process quiet_env 3 (Some 1234),
                   lock_critical_folders True (eng_config two_step_engine) ''Safe_Demo_Folder''
                     quiet_env 4]
            \<and> target_met pkg = False)"
proof -
  have flags: "auto_isolate (eng_config (mitigation_engine sample_pipeline)) = False"
      "auto_restore (eng_config (mitigation_engine sample_pipeline)) = False"
    by (simp_all add: sample_pipeline_def two_step_engine_def)
  have fresh: "detected_techniques (attack_tracker sample_pipeline) = []"
    by (simp add: sample_pipeline_def new_tracker_def)
  have none: "detected_techniques (snd (map_behavior_to_technique
        (pc_tracker (sample_clock 3000000))
        (get_or (dd_indicators decoy_only_detection) Map.empty)
        (attack_tracker sample_pipeline))) = []"
    by (simp add: map_behavior_to_technique_def decoy_only_matches_nothing sample_pipeline_def
          new_tracker_def)
  then have err: "snd (respond_to_threat sample_pipeline quiet_env (sample_clock 3000000)
            decoy_only_detection) = Inl KeyError"
    by (simp only: respond_raises_iff)
  have cnt: "incident_count (fst (respond_to_threat sample_pipeline quiet_env
       (sample_clock 3000000) decoy_only_detection)) = 1"
    using none
    by (simp add: respond_to_threat_def predict_next_stage_def Let_def sample_pipeline_def
          split: prod.splits)
  have eng: "mitigation_engine (fst (respond_to_threat sample_pipeline quiet_env
       (sample_clock 3000000) decoy_only_detection)) = two_step_engine"
    using respond_raises_before_steps [OF err] by (simp add: sample_pipeline_def)
  then have log: "response_log (mitigation_engine (fst (respond_to_threat sample_pipeline
       quiet_env (sample_clock 3000000) decoy_only_detection))) = []"
    by (simp add: two_step_engine_def)
  have fast: "\<exists>pkg. snd (respond_to_threat sample_pipeline quiet_env (sample_clock 3000000)
                    sample_detection) = Inr pkg
            \<and> actions_taken (mitigation_result_of pkg)
                = [kill_malicious_process quiet_env 3 (Some 1234),
                   lock_critical_folders True (eng_config two_step_engine) ''Safe_Demo_Folder''
                     quiet_env 4]
            \<and> target_met pkg = True"
    by (simp add: sample_run)
  have slow: "\<exists>pkg. snd (respond_to_threat sample_pipeline quiet_env (sample_clock 12000000)
                    sample_detection) = Inr pkg
            \<and> actions_taken (mitigation_result_of pkg)
                = [kill_malicious_process quiet_env 3 (Some 1234),
                   lock_critical_folders True (eng_config two_step_engine) ''Safe_Demo_Folder''
                     quiet_env 4]
            \<and> target_met pkg = False"
    by (simp add: sample_run)
  from flags fresh err cnt eng log fast slow show ?thesis by (intro conjI)
qed

end
